theory Spec2Isabelle
  imports Complex_Main
begin

section \<open>JavaScript strings\<close>

text \<open>
  A JavaScript string is modelled as a list of code units below 256 (the Latin-1 range),
  that is, as a HOL \<open>string\<close>. On that range the library functions used by
  \<open>AIProcessor\<close> are modelled exactly: the white space of \<open>\s\<close> and of
  \<open>trim()\<close> is TAB, LF, VT, FF, CR, SPACE and NBSP; \<open>toLowerCase()\<close> maps
  \<open>A\<close>..\<open>Z\<close> and the accented capitals U+00C0..U+00DE (without the
  multiplication sign U+00D7) to the letter 32 code units above.
\<close>

definition isWhiteSpace :: "char \<Rightarrow> bool" where
  "isWhiteSpace c = (let n = (of_char c :: nat) in (9 \<le> n \<and> n \<le> 13) \<or> n = 32 \<or> n = 160)"

text \<open>
  Every capital letter of the range has bit 5 (value 32) clear, so adding 32 sets that bit.
\<close>

definition isUpper :: "char \<Rightarrow> bool" where
  "isUpper c =
     (let n = (of_char c :: nat)
      in (65 \<le> n \<and> n \<le> 90) \<or> (192 \<le> n \<and> n \<le> 222 \<and> n \<noteq> 215))"

fun plus32 :: "char \<Rightarrow> char" where
  "plus32 (Char b0 b1 b2 b3 b4 b5 b6 b7) = Char b0 b1 b2 b3 b4 True b6 b7"

definition toLowerChar :: "char \<Rightarrow> char" where
  "toLowerChar c = (if isUpper c then plus32 c else c)"

definition toLowerCase :: "string \<Rightarrow> string" where
  "toLowerCase s = map toLowerChar s"

text \<open>\<open>s.trim()\<close>: white space is removed at both ends.\<close>

definition trim :: "string \<Rightarrow> string" where
  "trim s = rev (dropWhile isWhiteSpace (rev (dropWhile isWhiteSpace s)))"

text \<open>\<open>s.startsWith(k)\<close> and \<open>s.includes(k)\<close> (named \<open>includes_str\<close> here): \<open>k\<close> occurs in \<open>s\<close> as a substring.\<close>

fun startsWith :: "string \<Rightarrow> string \<Rightarrow> bool" where
  "startsWith s [] = True"
| "startsWith [] (k # ks) = False"
| "startsWith (c # cs) (k # ks) = (c = k \<and> startsWith cs ks)"

fun includes_str :: "string \<Rightarrow> string \<Rightarrow> bool" where
  "includes_str [] k = (k = [])"
| "includes_str (c # cs) k = (startsWith (c # cs) k \<or> includes_str cs k)"

text \<open>
  \<open>s.split(/[sep]+/)\<close> for a character class \<open>sep\<close>: the string is cut at every
  maximal run of separator characters. The regular expression cannot match the empty
  string, so the empty string yields one empty segment, and a separator run at the
  start or at the end of the string yields an empty first or last segment.
  \<open>splitFrom\<close> carries the segment read so far; \<open>splitSkip\<close> reads the rest of a run.
\<close>

fun splitFrom :: "(char \<Rightarrow> bool) \<Rightarrow> string \<Rightarrow> string \<Rightarrow> string list"
  and splitSkip :: "(char \<Rightarrow> bool) \<Rightarrow> string \<Rightarrow> string list" where
  "splitFrom sep cur [] = [cur]"
| "splitFrom sep cur (c # cs) =
     (if sep c then cur # splitSkip sep cs else splitFrom sep (cur @ [c]) cs)"
| "splitSkip sep [] = [[]]"
| "splitSkip sep (c # cs) =
     (if sep c then splitSkip sep cs else splitFrom sep [c] cs)"

definition isSentenceEnd :: "char \<Rightarrow> bool" where
  "isSentenceEnd c = (c = CHR ''.'' \<or> c = CHR ''!'' \<or> c = CHR ''?'')"

text \<open>\<open>transcript.split(/[.!?]+/)\<close>\<close>

definition splitSentences :: "string \<Rightarrow> string list" where
  "splitSentences transcript = splitFrom isSentenceEnd [] transcript"

text \<open>\<open>transcript.split(/\s+/)\<close>\<close>

definition splitWords :: "string \<Rightarrow> string list" where
  "splitWords s = splitFrom isWhiteSpace [] s"

text \<open>\<open>xs.join(sep)\<close>\<close>

fun join :: "string \<Rightarrow> string list \<Rightarrow> string" where
  "join sep [] = []"
| "join sep [x] = x"
| "join sep (x # y # ys) = x @ sep @ join sep (y # ys)"

text \<open>\<open>keywords.some(keyword => s.includes(keyword))\<close>\<close>

definition someIncluded :: "string list \<Rightarrow> string \<Rightarrow> bool" where
  "someIncluded keywords s = list_ex (\<lambda>keyword. includes_str s keyword) keywords"

section \<open>Dates\<close>

text \<open>
  \<open>new Date(t).toISOString()\<close> for a time value \<open>t\<close> in milliseconds since
  1970-01-01T00:00:00Z. The clock never reads before 1970, so time values are natural
  numbers. A time value above 8.64e15 is an invalid date, for which
  \<open>toISOString\<close> throws a \<open>RangeError\<close>. The calendar follows ECMAScript's
  \<open>YearFromTime\<close>, \<open>MonthFromTime\<close> and \<open>DateFromTime\<close>: years are counted
  off from 1970, then months within the year.
\<close>

datatype error = RangeError

definition msPerDay :: nat where
  "msPerDay = 24 * 60 * 60 * 1000"

definition maxTime :: nat where
  "maxTime = 8640000000000000"

definition isLeapYear :: "nat \<Rightarrow> bool" where
  "isLeapYear y = ((y mod 4 = 0 \<and> y mod 100 \<noteq> 0) \<or> y mod 400 = 0)"

definition daysInYear :: "nat \<Rightarrow> nat" where
  "daysInYear y = (if isLeapYear y then 366 else 365)"

text \<open>\<open>yearFromDays y n\<close>: the year and the day within it, \<open>n\<close> days after 1 January of \<open>y\<close>.\<close>

function yearFromDays :: "nat \<Rightarrow> nat \<Rightarrow> nat \<times> nat" where
  "yearFromDays y n =
     (if n < daysInYear y then (y, n) else yearFromDays (Suc y) (n - daysInYear y))"
  by pat_completeness auto
termination
  by (relation "measure snd") (auto simp: daysInYear_def)

definition monthLengths :: "bool \<Rightarrow> nat list" where
  "monthLengths leap = [31, if leap then 29 else 28, 31, 30, 31, 30, 31, 31, 30, 31, 30, 31]"

text \<open>
  \<open>monthFromDays ls m n\<close>: the month (counted from \<open>m\<close>) and the day of the month
  (counted from 1), \<open>n\<close> days after the first day of month \<open>m\<close>. The first equation is
  not reached for a day within the year.
\<close>

fun monthFromDays :: "nat list \<Rightarrow> nat \<Rightarrow> nat \<Rightarrow> nat \<times> nat" where
  "monthFromDays [] m n = (m, n + 1)"
| "monthFromDays (l # ls) m n =
     (if n < l then (m, n + 1) else monthFromDays ls (m + 1) (n - l))"

definition digit :: "nat \<Rightarrow> char" where
  "digit n = ''0123456789'' ! (n mod 10)"

definition pad2 :: "nat \<Rightarrow> string" where
  "pad2 n = [digit (n div 10), digit n]"

definition pad3 :: "nat \<Rightarrow> string" where
  "pad3 n = [digit (n div 100), digit (n div 10), digit n]"

definition pad4 :: "nat \<Rightarrow> string" where
  "pad4 n = [digit (n div 1000), digit (n div 100), digit (n div 10), digit n]"

definition pad6 :: "nat \<Rightarrow> string" where
  "pad6 n = [digit (n div 100000), digit (n div 10000), digit (n div 1000),
             digit (n div 100), digit (n div 10), digit n]"

definition toISOString :: "nat \<Rightarrow> error + string" where
  "toISOString t =
     (if t > maxTime then Inl RangeError
      else
        let day = t div msPerDay;
            msInDay = t mod msPerDay;
            (y, dayInYear) = yearFromDays 1970 day;
            (m, d) = monthFromDays (monthLengths (isLeapYear y)) 1 dayInYear;
            hh = msInDay div 3600000;
            mm = msInDay div 60000 mod 60;
            ss = msInDay div 1000 mod 60;
            ms = msInDay mod 1000
        in Inr ((if y \<le> 9999 then pad4 y else ''+'' @ pad6 y) @ ''-'' @ pad2 m @ ''-'' @ pad2 d
                @ ''T'' @ pad2 hh @ '':'' @ pad2 mm @ '':'' @ pad2 ss @ ''.'' @ pad3 ms @ ''Z''))"

text \<open>\<open>new Date(t).toISOString().split('T')[0]\<close>\<close>

definition isoDate :: "nat \<Rightarrow> error + string" where
  "isoDate t =
     (case toISOString t of
        Inl err \<Rightarrow> Inl err
      | Inr isoString \<Rightarrow> Inr (takeWhile (\<lambda>c. c \<noteq> CHR ''T'') isoString))"

section \<open>The data model (\<open>types/index.ts\<close>)\<close>

datatype priority = High | Medium | Low

datatype status = Pending | InProgress | Completed

record ActionItem =
  id_a :: string
  description_a :: string
  priority_a :: priority
  category :: string

record Task =
  id_t :: string
  description_t :: string
  assignee :: string
  dueDate :: string
  priority_t :: priority
  status :: status

record MeetingAnalysis =
  summary :: string
  actionItems :: "ActionItem list"
  tasks :: "Task list"
  keyTopics :: "string list"
  nextSteps :: "string list"

section \<open>The environment\<close>

text \<open>
  \<open>uuidv4()\<close>, \<open>Math.random()\<close> and \<open>Date.now()\<close> read the environment. An
  environment gives, for each of the three, the value returned by its \<open>k\<close>-th call
  (counted from 0) during one run of \<open>analyzeMeeting\<close>; a \<open>calls\<close> record counts the
  calls made so far. \<open>Math.random()\<close> returns a double \<open>r\<close> with \<open>0 \<le> r < 1\<close>,
  modelled by the rational number it denotes. \<open>Date.now()\<close> returns a whole number of
  milliseconds; all sums of time values stay below \<open>2^53\<close> or are out of the range of
  \<open>Date\<close>, so they are exact.
\<close>

record env =
  uuidv4 :: "nat \<Rightarrow> string"
  mathRandom :: "nat \<Rightarrow> rat"
  dateNow :: "nat \<Rightarrow> nat"

record calls =
  uuidCalls :: nat
  randomCalls :: nat
  nowCalls :: nat

definition noCalls :: calls where
  "noCalls = \<lparr>uuidCalls = 0, randomCalls = 0, nowCalls = 0\<rparr>"

definition callUuidv4 :: "env \<Rightarrow> calls \<Rightarrow> string \<times> calls" where
  "callUuidv4 e c = (uuidv4 e (uuidCalls c), c\<lparr>uuidCalls := uuidCalls c + 1\<rparr>)"

definition callRandom :: "env \<Rightarrow> calls \<Rightarrow> rat \<times> calls" where
  "callRandom e c = (mathRandom e (randomCalls c), c\<lparr>randomCalls := randomCalls c + 1\<rparr>)"

definition callNow :: "env \<Rightarrow> calls \<Rightarrow> nat \<times> calls" where
  "callNow e c = (dateNow e (nowCalls c), c\<lparr>nowCalls := nowCalls c + 1\<rparr>)"

section \<open>\<open>AIProcessor\<close>\<close>

subsection \<open>\<open>generateSummary\<close>\<close>

definition keyPhrases :: "string list" where
  "keyPhrases =
     [''discussed'', ''agreed'', ''decided'', ''concluded'', ''reviewed'',
      ''presented'', ''analyzed'', ''proposed'', ''suggested'', ''recommended'']"

definition genericSummary :: string where
  "genericSummary = ''Meeting focused on key business discussions and strategic planning. Participants reviewed current progress, discussed upcoming milestones, and aligned on next steps for continued success.''"

definition generateSummary :: "string \<Rightarrow> string list \<Rightarrow> string" where
  "generateSummary transcript sentences =
     (let importantSentences =
            map (\<lambda>sentence. trim sentence)
              (take 4
                (filter (\<lambda>sentence. someIncluded keyPhrases (toLowerCase sentence)) sentences))
      in if length importantSentences = 0 then genericSummary
         else join ''. '' importantSentences @ ''.'')"

subsection \<open>\<open>extractActionItems\<close>\<close>

definition actionKeywords :: "string list" where
  "actionKeywords =
     [''action'', ''todo'', ''follow up'', ''next step'', ''need to'', ''should'',
      ''must'', ''required'', ''implement'', ''review'', ''analyze'', ''prepare'', ''contact'']"

definition actionPriority :: "string \<Rightarrow> priority" where
  "actionPriority lowerSentence =
     (if includes_str lowerSentence ''urgent'' \<or> includes_str lowerSentence ''asap'' then High
      else if includes_str lowerSentence ''important'' then Medium
      else Low)"

definition actionCategory :: "string \<Rightarrow> string" where
  "actionCategory lowerSentence =
     (if includes_str lowerSentence ''client'' then ''Client Relations''
      else if includes_str lowerSentence ''budget'' then ''Budget & Finance''
      else if includes_str lowerSentence ''technical'' then ''Technical''
      else ''General'')"

text \<open>The body of \<open>sentences.forEach\<close>: one sentence, with the items pushed so far.\<close>

fun actionItemsLoop ::
  "env \<Rightarrow> string list \<Rightarrow> calls \<times> ActionItem list \<Rightarrow> calls \<times> ActionItem list" where
  "actionItemsLoop e [] st = st"
| "actionItemsLoop e (sentence # rest) (c, items) =
     (let lowerSentence = toLowerCase sentence
      in if someIncluded actionKeywords lowerSentence
         then
           let priority = actionPriority lowerSentence;
               categoryName = actionCategory lowerSentence;
               (uuid, c1) = callUuidv4 e c
           in actionItemsLoop e rest
                (c1, items @ [\<lparr>id_a = uuid, description_a = trim sentence,
                               priority_a = priority, category = categoryName\<rparr>])
         else actionItemsLoop e rest (c, items))"

definition defaultActionItems :: "env \<Rightarrow> calls \<Rightarrow> calls \<times> ActionItem list" where
  "defaultActionItems e c =
     (let (uuid1, c1) = callUuidv4 e c;
          (uuid2, c2) = callUuidv4 e c1
      in (c2,
          [\<lparr>id_a = uuid1, description_a = ''Schedule follow-up meeting to review progress'',
            priority_a = Medium, category = ''General''\<rparr>,
           \<lparr>id_a = uuid2, description_a = ''Share meeting summary with all stakeholders'',
            priority_a = Low, category = ''Communication''\<rparr>]))"

definition extractActionItems :: "env \<Rightarrow> calls \<Rightarrow> string \<Rightarrow> calls \<times> ActionItem list" where
  "extractActionItems e c transcript =
     (let sentences = splitSentences transcript;
          (c1, items) = actionItemsLoop e sentences (c, []);
          (c2, items2) =
            (if length items = 0
             then (let (c', defaults) = defaultActionItems e c1 in (c', items @ defaults))
             else (c1, items))
      in (c2, take 6 items2))"

subsection \<open>\<open>extractTasks\<close>\<close>

definition taskKeywords :: "string list" where
  "taskKeywords =
     [''assign'', ''responsible'', ''owner'', ''lead'', ''manage'', ''handle'',
      ''complete'', ''deliver'', ''finish'', ''due'', ''deadline'']"

definition defaultAssignees :: "string list" where
  "defaultAssignees = [''Team Lead'', ''Project Manager'', ''Developer'', ''Analyst'']"

definition taskPriority :: "string \<Rightarrow> priority" where
  "taskPriority lowerSentence =
     (if includes_str lowerSentence ''urgent'' \<or> includes_str lowerSentence ''critical'' then High
      else if includes_str lowerSentence ''important'' then Medium
      else Low)"

text \<open>
  \<open>Math.floor(Math.random() * 14) + 1\<close>, for the value \<open>r\<close> of \<open>Math.random()\<close>,
  a double with \<open>0 \<le> r < 1\<close>. The product is a double too: the exact product rounded
  to 53 significant bits, to the nearest, a tie to the even neighbour. \<open>ulp x\<close> is the
  distance between neighbouring doubles around \<open>x\<close>, for \<open>1/2 \<le> x < 16\<close>. A product
  below 1/2 rounds to a double that is at most 1/2, whose floor is 0.
\<close>

definition roundHalfEven :: "rat \<Rightarrow> int" where
  "roundHalfEven q =
     (let f = \<lfloor>q\<rfloor>; rest = q - of_int f
      in if rest < 1 / 2 then f
         else if 1 / 2 < rest then f + 1
         else if even f then f else f + 1)"

definition ulp :: "rat \<Rightarrow> rat" where
  "ulp x =
     (if x < 1 then 1 / 2 ^ 53
      else if x < 2 then 1 / 2 ^ 52
      else if x < 4 then 1 / 2 ^ 51
      else if x < 8 then 1 / 2 ^ 50
      else 1 / 2 ^ 49)"

definition floorTimes14 :: "rat \<Rightarrow> int" where
  "floorTimes14 r =
     (let x = r * 14
      in if x < 1 / 2 then 0
         else \<lfloor>of_int (roundHalfEven (x / ulp x)) * ulp x\<rfloor>)"

definition randomDays :: "rat \<Rightarrow> nat" where
  "randomDays r = nat (floorTimes14 r) + 1"

text \<open>
  The body of \<open>sentences.forEach((sentence, index) => ...)\<close>. The roster is never empty,
  so \<open>assignees[index % assignees.length]\<close> is an element of it.
\<close>

fun tasksLoop ::
  "env \<Rightarrow> string list \<Rightarrow> string list \<Rightarrow> nat \<Rightarrow> calls \<times> Task list
     \<Rightarrow> error + calls \<times> Task list" where
  "tasksLoop e assignees [] index st = Inr st"
| "tasksLoop e assignees (sentence # rest) index (c, acc) =
     (let lowerSentence = toLowerCase sentence
      in if someIncluded taskKeywords lowerSentence
         then
           let priority = taskPriority lowerSentence;
               assigneeName = assignees ! (index mod length assignees);
               (now, c1) = callNow e c;
               (r, c2) = callRandom e c1
           in case isoDate (now + randomDays r * 24 * 60 * 60 * 1000) of
                Inl err \<Rightarrow> Inl err
              | Inr dueDateString \<Rightarrow>
                  let (uuid, c3) = callUuidv4 e c2
                  in tasksLoop e assignees rest (index + 1)
                       (c3, acc @ [\<lparr>id_t = uuid, description_t = trim sentence,
                                      assignee = assigneeName, dueDate = dueDateString,
                                      priority_t = priority, status = Pending\<rparr>])
         else tasksLoop e assignees rest (index + 1) (c, acc))"

definition defaultTasks :: "string list" where
  "defaultTasks =
     [''Review and finalize project requirements'',
      ''Prepare client presentation materials'',
      ''Update project timeline and milestones'',
      ''Conduct stakeholder feedback session'']"

text \<open>The body of \<open>defaultTasks.forEach((taskDesc, index) => ...)\<close>.\<close>

fun defaultTasksLoop ::
  "env \<Rightarrow> string list \<Rightarrow> string list \<Rightarrow> nat \<Rightarrow> calls \<times> Task list
     \<Rightarrow> error + calls \<times> Task list" where
  "defaultTasksLoop e assignees [] index st = Inr st"
| "defaultTasksLoop e assignees (taskDesc # rest) index (c, acc) =
     (let (uuid, c1) = callUuidv4 e c;
          (now, c2) = callNow e c1
      in case isoDate (now + (index + 3) * 24 * 60 * 60 * 1000) of
           Inl err \<Rightarrow> Inl err
         | Inr dueDateString \<Rightarrow>
             defaultTasksLoop e assignees rest (index + 1)
               (c2, acc @ [\<lparr>id_t = uuid, description_t = taskDesc,
                              assignee = assignees ! (index mod length assignees),
                              dueDate = dueDateString,
                              priority_t = (if index = 0 then High else Medium),
                              status = Pending\<rparr>]))"

definition extractTasks ::
  "env \<Rightarrow> calls \<Rightarrow> string \<Rightarrow> string list \<Rightarrow> error + calls \<times> Task list" where
  "extractTasks e c transcript participants =
     (let sentences = splitSentences transcript;
          assignees = (if length participants > 0 then participants else defaultAssignees)
      in case tasksLoop e assignees sentences 0 (c, []) of
           Inl err \<Rightarrow> Inl err
         | Inr (c1, acc) \<Rightarrow>
             (case (if length acc = 0
                    then defaultTasksLoop e assignees defaultTasks 0 (c1, acc)
                    else Inr (c1, acc)) of
                Inl err \<Rightarrow> Inl err
              | Inr (c2, acc2) \<Rightarrow> Inr (c2, take 5 acc2)))"

subsection \<open>\<open>generateNextSteps\<close>\<close>

definition baselineSteps :: "string list" where
  "baselineSteps =
     [''Distribute meeting summary to all participants'',
      ''Set up follow-up meetings for high-priority items'',
      ''Monitor task completion and provide updates'']"

definition generateNextSteps :: "ActionItem list \<Rightarrow> Task list \<Rightarrow> string list" where
  "generateNextSteps items taskList =
     (let steps = baselineSteps;
          steps1 = (if list_ex (\<lambda>item. priority_a item = High) items
                    then ''Address high-priority action items immediately'' # steps
                    else steps);
          steps2 = (if list_ex (\<lambda>task. priority_t task = High) taskList
                    then steps1 @ [''Ensure high-priority tasks have adequate resources'']
                    else steps1)
      in steps2)"

subsection \<open>\<open>analyzeMeeting\<close>\<close>

definition topicKeywords :: "(string \<times> string list) list" where
  "topicKeywords =
     [(''project management'', [''project'', ''timeline'', ''milestone'', ''deliverable'', ''deadline'']),
      (''budget & finance'', [''budget'', ''cost'', ''expense'', ''revenue'', ''financial'', ''funding'']),
      (''team coordination'', [''team'', ''assign'', ''responsible'', ''collaborate'', ''coordinate'']),
      (''client relations'', [''client'', ''customer'', ''stakeholder'', ''presentation'', ''meeting'']),
      (''technical discussion'', [''technical'', ''development'', ''implementation'', ''architecture'', ''solution''])]"

definition analyzeMeeting :: "env \<Rightarrow> string \<Rightarrow> string list \<Rightarrow> error + MeetingAnalysis" where
  "analyzeMeeting e transcript participants =
     (let words = splitWords (toLowerCase transcript);
          sentences = filter (\<lambda>s. length (trim s) > 0) (splitSentences transcript);
          topics =
            map (\<lambda>(topic, _). topic)
              (filter (\<lambda>(_, keywords). list_ex (\<lambda>keyword. List.member words keyword) keywords)
                 topicKeywords);
          summaryText = generateSummary transcript sentences;
          (c1, items) = extractActionItems e noCalls transcript
      in case extractTasks e c1 transcript participants of
           Inl err \<Rightarrow> Inl err
         | Inr (c2, taskList) \<Rightarrow>
             Inr \<lparr>summary = summaryText, actionItems = items, tasks = taskList,
                  keyTopics = topics, nextSteps = generateNextSteps items taskList\<rparr>)"

section \<open>Notions for stating the properties\<close>

subsection \<open>The loops as lists\<close>

text \<open>
  The items a loop pushes, written as a list over the matching sentences: the \<open>k\<close>-th
  call of \<open>uuidv4\<close> gives the id of the item pushed then.
\<close>

definition isActionSentence :: "string \<Rightarrow> bool" where
  "isActionSentence s = someIncluded actionKeywords (toLowerCase s)"

definition actionItemOf :: "env \<Rightarrow> nat \<times> string \<Rightarrow> ActionItem" where
  "actionItemOf e = (\<lambda>(k, sentence).
     \<lparr>id_a = uuidv4 e k, description_a = trim sentence,
      priority_a = actionPriority (toLowerCase sentence),
      category = actionCategory (toLowerCase sentence)\<rparr>)"

definition matchedActionItems :: "env \<Rightarrow> nat \<Rightarrow> string list \<Rightarrow> ActionItem list" where
  "matchedActionItems e k sentences =
     map (actionItemOf e) (enumerate k (filter isActionSentence sentences))"

text \<open>
  The tasks pushed by \<open>tasksLoop\<close>: the \<open>j\<close>-th matching sentence from a state \<open>c\<close>
  takes the \<open>j\<close>-th next value of each of the three sources. \<open>datesOK\<close> says that
  none of the first \<open>n\<close> due dates is out of range.
\<close>

definition isTaskSentence :: "string \<Rightarrow> bool" where
  "isTaskSentence s = someIncluded taskKeywords (toLowerCase s)"

definition taskDueDate :: "env \<Rightarrow> calls \<Rightarrow> nat \<Rightarrow> error + string" where
  "taskDueDate e c j =
     isoDate (dateNow e (nowCalls c + j)
              + randomDays (mathRandom e (randomCalls c + j)) * 24 * 60 * 60 * 1000)"

definition datesOK :: "env \<Rightarrow> calls \<Rightarrow> nat \<Rightarrow> bool" where
  "datesOK e c n = (\<forall>j<n. taskDueDate e c j \<noteq> Inl RangeError)"

definition taskOf :: "env \<Rightarrow> string list \<Rightarrow> calls \<Rightarrow> nat \<times> nat \<times> string \<Rightarrow> Task" where
  "taskOf e assignees c = (\<lambda>(j, index, sentence).
     \<lparr>id_t = uuidv4 e (uuidCalls c + j), description_t = trim sentence,
      assignee = assignees ! (index mod length assignees),
      dueDate = (case taskDueDate e c j of Inl err \<Rightarrow> [] | Inr d \<Rightarrow> d),
      priority_t = taskPriority (toLowerCase sentence), status = Pending\<rparr>)"

definition taskMatches :: "nat \<Rightarrow> string list \<Rightarrow> (nat \<times> string) list" where
  "taskMatches index sentences =
     filter (\<lambda>(i, sentence). isTaskSentence sentence) (enumerate index sentences)"

definition matchedTasks :: "env \<Rightarrow> string list \<Rightarrow> calls \<Rightarrow> nat \<Rightarrow> string list \<Rightarrow> Task list" where
  "matchedTasks e assignees c index sentences =
     map (taskOf e assignees c) (enumerate 0 (taskMatches index sentences))"

definition advance :: "nat \<Rightarrow> calls \<Rightarrow> calls" where
  "advance n c =
     \<lparr>uuidCalls = uuidCalls c + n, randomCalls = randomCalls c + n, nowCalls = nowCalls c + n\<rparr>"

text \<open>
  The default tasks and the roster. \<open>defaultDatesOK\<close> says that none of the four
  default due dates is out of range.
\<close>

definition roster :: "string list \<Rightarrow> string list" where
  "roster participants = (if length participants > 0 then participants else defaultAssignees)"

definition defaultDueDate :: "env \<Rightarrow> calls \<Rightarrow> nat \<Rightarrow> error + string" where
  "defaultDueDate e c index =
     isoDate (dateNow e (nowCalls c + index) + (index + 3) * 24 * 60 * 60 * 1000)"

definition defaultTaskOf :: "env \<Rightarrow> string list \<Rightarrow> calls \<Rightarrow> nat \<times> string \<Rightarrow> Task" where
  "defaultTaskOf e assignees c = (\<lambda>(index, taskDesc).
     \<lparr>id_t = uuidv4 e (uuidCalls c + index), description_t = taskDesc,
      assignee = assignees ! (index mod length assignees),
      dueDate = (case defaultDueDate e c index of Inl err \<Rightarrow> [] | Inr d \<Rightarrow> d),
      priority_t = (if index = 0 then High else Medium), status = Pending\<rparr>)"

definition defaultDatesOK :: "env \<Rightarrow> calls \<Rightarrow> bool" where
  "defaultDatesOK e c = (\<forall>index<4. defaultDueDate e c index \<noteq> Inl RangeError)"

definition advanceDefault :: "nat \<Rightarrow> calls \<Rightarrow> calls" where
  "advanceDefault n c = c\<lparr>uuidCalls := uuidCalls c + n, nowCalls := nowCalls c + n\<rparr>"

text \<open>The two values \<open>analyzeMeeting\<close> computes from the transcript alone.\<close>

definition topicsOf :: "string \<Rightarrow> string list" where
  "topicsOf transcript =
     map (\<lambda>(topic, _). topic)
       (filter (\<lambda>(_, keywords).
                  list_ex (\<lambda>keyword. List.member (splitWords (toLowerCase transcript)) keyword) keywords)
          topicKeywords)"

definition nonEmptySentences :: "string \<Rightarrow> string list" where
  "nonEmptySentences transcript = filter (\<lambda>s. length (trim s) > 0) (splitSentences transcript)"

subsection \<open>Sentences\<close>

definition hasKeyPhrase :: "string \<Rightarrow> bool" where
  "hasKeyPhrase s = someIncluded keyPhrases (toLowerCase s)"

definition isBlank :: "string \<Rightarrow> bool" where
  "isBlank s = (length (trim s) = 0)"

text \<open>
  The summary computed over all segments of the split, blank ones included.
\<close>

definition summaryOfAllSentences :: "string \<Rightarrow> string" where
  "summaryOfAllSentences transcript =
     (let matches = take 4 (filter hasKeyPhrase (splitSentences transcript))
      in if matches = [] then genericSummary
         else join ''. '' (map trim matches) @ ''.'')"

subsection \<open>Calendar dates\<close>

text \<open>
  ECMAScript's \<open>DayFromYear\<close>: the number of days from 1 January 1970 to 1 January
  of year \<open>y\<close>, for \<open>y\<close> from 1970 on.
\<close>

definition dayFromYear :: "nat \<Rightarrow> nat" where
  "dayFromYear y =
     365 * (y - 1970) + (y - 1969) div 4 - (y - 1901) div 100 + (y - 1601) div 400"

text \<open>The shape \<open>YYYY-MM-DD\<close>.\<close>

definition isDigit :: "char \<Rightarrow> bool" where
  "isDigit c = (c \<in> set ''0123456789'')"

definition isCalendarDate :: "string \<Rightarrow> bool" where
  "isCalendarDate s =
     (length s = 10 \<and> list_all isDigit (take 4 s) \<and> s ! 4 = CHR ''-'' \<and>
      list_all isDigit (take 2 (drop 5 s)) \<and> s ! 7 = CHR ''-'' \<and> list_all isDigit (drop 8 s))"

text \<open>The date part of \<open>toISOString\<close>, before the letter \<open>T\<close>.\<close>

definition calendarDate :: "nat \<Rightarrow> string" where
  "calendarDate t =
     (let (y, dayInYear) = yearFromDays 1970 (t div msPerDay);
          (m, d) = monthFromDays (monthLengths (isLeapYear y)) 1 dayInYear
      in (if y \<le> 9999 then pad4 y else ''+'' @ pad6 y) @ ''-'' @ pad2 m @ ''-'' @ pad2 d)"

subsection \<open>Predicates on inputs and results\<close>

text \<open>
  No sentence of the transcript contains a key phrase, an action keyword or a task keyword,
  and no word of the transcript is a topic keyword.
\<close>

definition noTriggers :: "string \<Rightarrow> bool" where
  "noTriggers transcript =
     (list_all (\<lambda>s. \<not> hasKeyPhrase s \<and> \<not> isActionSentence s \<and> \<not> isTaskSentence s)
        (splitSentences transcript) \<and>
      list_all (\<lambda>(topic, keywords).
                  list_all (\<lambda>keyword. \<not> List.member (splitWords (toLowerCase transcript)) keyword)
                    keywords)
        topicKeywords)"

text \<open>
  The contract of \<open>Math.random()\<close>: every value lies in \<open>[0, 1)\<close>. The largest double
  below 1 is \<open>1 - 2^-53\<close>.
\<close>

definition randomInRange :: "env \<Rightarrow> bool" where
  "randomInRange e = (\<forall>k. 0 \<le> mathRandom e k \<and> mathRandom e k \<le> 1 - 1 / 2 ^ 53)"

text \<open>
  Every clock reading is at least 14 days before the largest time value of a \<open>Date\<close>,
  respectively before the year 10000 (253402300800000 is 10000-01-01T00:00:00Z).
\<close>

definition clockValid :: "env \<Rightarrow> bool" where
  "clockValid e = (\<forall>k. dateNow e k + 14 * msPerDay \<le> maxTime)"

definition clockFourDigitYear :: "env \<Rightarrow> bool" where
  "clockFourDigitYear e = (\<forall>k. dateNow e k + 14 * msPerDay < 253402300800000)"

text \<open>An analysis with the due dates of its tasks blanked.\<close>

definition withoutDueDates :: "MeetingAnalysis \<Rightarrow> MeetingAnalysis" where
  "withoutDueDates r = r\<lparr>tasks := map (\<lambda>task. task\<lparr>dueDate := []\<rparr>) (tasks r)\<rparr>"

text \<open>An analysis with the ids of its action items and tasks blanked.\<close>

definition withoutIds :: "MeetingAnalysis \<Rightarrow> MeetingAnalysis" where
  "withoutIds r =
     r\<lparr>actionItems := map (\<lambda>item. item\<lparr>id_a := []\<rparr>) (actionItems r),
       tasks := map (\<lambda>task. task\<lparr>id_t := []\<rparr>) (tasks r)\<rparr>"

text \<open>The calls made when \<open>extractActionItems\<close> returns: one \<open>uuidv4()\<close> per item pushed.\<close>

definition callsAfterActionItems :: "string \<Rightarrow> calls" where
  "callsAfterActionItems transcript =
     (let n = length (filter isActionSentence (splitSentences transcript))
      in \<lparr>uuidCalls = (if n = 0 then 2 else n), randomCalls = 0, nowCalls = 0\<rparr>)"

text \<open>
  The summary as the specification words it: the transcript is split into sentences; the
  first four sentences that contain one of the ten key phrases, case-insensitively, are
  trimmed, joined with \<open>. \<close> and closed with a full stop; without such a sentence the
  summary is the generic text.
\<close>

definition specKeyPhrases :: "string list" where
  "specKeyPhrases =
     [''discussed'', ''agreed'', ''decided'', ''concluded'', ''reviewed'', ''presented'',
      ''analyzed'', ''proposed'', ''suggested'', ''recommended'']"

definition specSummary :: "string \<Rightarrow> string" where
  "specSummary transcript =
     (let matches =
            take 4 (filter (\<lambda>s. \<exists>phrase\<in>set specKeyPhrases. includes_str (toLowerCase s) phrase)
                      (splitSentences transcript))
      in if matches = [] then genericSummary
         else join ''. '' (map trim matches) @ ''.'')"

text \<open>
  The analysis returned when nothing in the transcript triggers: the two default action
  items, the four default tasks, the generic summary, no topic, and four next steps (the
  first default task has priority High).
\<close>

definition fallbackAnalysis :: "env \<Rightarrow> string list \<Rightarrow> MeetingAnalysis" where
  "fallbackAnalysis e participants =
     \<lparr>summary = genericSummary,
      actionItems =
        [\<lparr>id_a = uuidv4 e 0, description_a = ''Schedule follow-up meeting to review progress'',
          priority_a = Medium, category = ''General''\<rparr>,
         \<lparr>id_a = uuidv4 e 1, description_a = ''Share meeting summary with all stakeholders'',
          priority_a = Low, category = ''Communication''\<rparr>],
      tasks =
        [\<lparr>id_t = uuidv4 e 2, description_t = ''Review and finalize project requirements'',
          assignee = roster participants ! (0 mod length (roster participants)),
          dueDate = calendarDate (dateNow e 0 + 3 * msPerDay),
          priority_t = High, status = Pending\<rparr>,
         \<lparr>id_t = uuidv4 e 3, description_t = ''Prepare client presentation materials'',
          assignee = roster participants ! (1 mod length (roster participants)),
          dueDate = calendarDate (dateNow e 1 + 4 * msPerDay),
          priority_t = Medium, status = Pending\<rparr>,
         \<lparr>id_t = uuidv4 e 4, description_t = ''Update project timeline and milestones'',
          assignee = roster participants ! (2 mod length (roster participants)),
          dueDate = calendarDate (dateNow e 2 + 5 * msPerDay),
          priority_t = Medium, status = Pending\<rparr>,
         \<lparr>id_t = uuidv4 e 5, description_t = ''Conduct stakeholder feedback session'',
          assignee = roster participants ! (3 mod length (roster participants)),
          dueDate = calendarDate (dateNow e 3 + 6 * msPerDay),
          priority_t = Medium, status = Pending\<rparr>],
      keyTopics = [],
      nextSteps =
        [''Distribute meeting summary to all participants'',
         ''Set up follow-up meetings for high-priority items'',
         ''Monitor task completion and provide updates'',
         ''Ensure high-priority tasks have adequate resources'']\<rparr>"

section \<open>Concrete runs\<close>

text \<open>
  Two environments and a few transcripts, with the analysis each run returns. The clock of
  \<open>env0\<close> stands at 2026-11-03T00:00:00Z and its \<open>Math.random()\<close> always returns
  0.5. In \<open>env1\<close> the clock stands later and \<open>Math.random()\<close> returns 15/16, which
  gives the longest delay of 14 days.
\<close>

definition env0 :: env where
  "env0 = \<lparr>uuidv4 = (\<lambda>k. ''uuid-'' @ [digit (k div 10), digit k]), mathRandom = (\<lambda>k. 1 / 2),
           dateNow = (\<lambda>k. 1793664000000)\<rparr>"

definition env1 :: env where
  "env1 = \<lparr>uuidv4 = (\<lambda>k. ''uuid-'' @ [digit (k div 10), digit k]), mathRandom = (\<lambda>k. 15 / 16),
           dateNow = (\<lambda>k. 1794000000000)\<rparr>"

definition team :: "string list" where
  "team = [''Sarah'', ''Mike'', ''Lisa'']"

definition budgetTranscript :: string where
  "budgetTranscript = ''We need to review the budget urgently.''"

definition budgetAnalysis :: MeetingAnalysis where
  "budgetAnalysis =
     \<lparr>summary =
         ''Meeting focused on key business discussions and strategic planning. Participants reviewed current progress, discussed upcoming milestones, and aligned on next steps for continued success.'',
      actionItems =
        [\<lparr>id_a = ''uuid-00'',
          description_a = ''We need to review the budget urgently'',
          priority_a = High, category = ''Budget & Finance''\<rparr>],
      tasks =
        [\<lparr>id_t = ''uuid-01'',
          description_t = ''Review and finalize project requirements'',
          assignee = ''Team Lead'', dueDate = ''2026-11-06'', priority_t = High, status = Pending\<rparr>,
         \<lparr>id_t = ''uuid-02'',
          description_t = ''Prepare client presentation materials'',
          assignee = ''Project Manager'', dueDate = ''2026-11-07'', priority_t = Medium, status = Pending\<rparr>,
         \<lparr>id_t = ''uuid-03'',
          description_t = ''Update project timeline and milestones'',
          assignee = ''Developer'', dueDate = ''2026-11-08'', priority_t = Medium, status = Pending\<rparr>,
         \<lparr>id_t = ''uuid-04'',
          description_t = ''Conduct stakeholder feedback session'',
          assignee = ''Analyst'', dueDate = ''2026-11-09'', priority_t = Medium, status = Pending\<rparr>],
      keyTopics = [''budget & finance''],
      nextSteps =
        [''Address high-priority action items immediately'',
         ''Distribute meeting summary to all participants'',
         ''Set up follow-up meetings for high-priority items'',
         ''Monitor task completion and provide updates'',
         ''Ensure high-priority tasks have adequate resources'']\<rparr>"

definition roundRobinTranscript :: string where
  "roundRobinTranscript = ''Assign it. Ok. Handle it. No. Yes. Finish it''"

definition roundRobinAnalysis :: MeetingAnalysis where
  "roundRobinAnalysis =
     \<lparr>summary =
         ''Meeting focused on key business discussions and strategic planning. Participants reviewed current progress, discussed upcoming milestones, and aligned on next steps for continued success.'',
      actionItems =
        [\<lparr>id_a = ''uuid-00'',
          description_a = ''Schedule follow-up meeting to review progress'',
          priority_a = Medium, category = ''General''\<rparr>,
         \<lparr>id_a = ''uuid-01'',
          description_a = ''Share meeting summary with all stakeholders'',
          priority_a = Low, category = ''Communication''\<rparr>],
      tasks =
        [\<lparr>id_t = ''uuid-02'',
          description_t = ''Assign it'',
          assignee = ''Sarah'', dueDate = ''2026-11-11'', priority_t = Low, status = Pending\<rparr>,
         \<lparr>id_t = ''uuid-03'',
          description_t = ''Handle it'',
          assignee = ''Lisa'', dueDate = ''2026-11-11'', priority_t = Low, status = Pending\<rparr>,
         \<lparr>id_t = ''uuid-04'',
          description_t = ''Finish it'',
          assignee = ''Lisa'', dueDate = ''2026-11-11'', priority_t = Low, status = Pending\<rparr>],
      keyTopics = [''team coordination''],
      nextSteps =
        [''Distribute meeting summary to all participants'',
         ''Set up follow-up meetings for high-priority items'',
         ''Monitor task completion and provide updates'']\<rparr>"

definition roundRobinLaterAnalysis :: MeetingAnalysis where
  "roundRobinLaterAnalysis =
     \<lparr>summary =
         ''Meeting focused on key business discussions and strategic planning. Participants reviewed current progress, discussed upcoming milestones, and aligned on next steps for continued success.'',
      actionItems =
        [\<lparr>id_a = ''uuid-00'',
          description_a = ''Schedule follow-up meeting to review progress'',
          priority_a = Medium, category = ''General''\<rparr>,
         \<lparr>id_a = ''uuid-01'',
          description_a = ''Share meeting summary with all stakeholders'',
          priority_a = Low, category = ''Communication''\<rparr>],
      tasks =
        [\<lparr>id_t = ''uuid-02'',
          description_t = ''Assign it'',
          assignee = ''Sarah'', dueDate = ''2026-11-20'', priority_t = Low, status = Pending\<rparr>,
         \<lparr>id_t = ''uuid-03'',
          description_t = ''Handle it'',
          assignee = ''Lisa'', dueDate = ''2026-11-20'', priority_t = Low, status = Pending\<rparr>,
         \<lparr>id_t = ''uuid-04'',
          description_t = ''Finish it'',
          assignee = ''Lisa'', dueDate = ''2026-11-20'', priority_t = Low, status = Pending\<rparr>],
      keyTopics = [''team coordination''],
      nextSteps =
        [''Distribute meeting summary to all participants'',
         ''Set up follow-up meetings for high-priority items'',
         ''Monitor task completion and provide updates'']\<rparr>"

definition emptyTranscript :: string where
  "emptyTranscript = ''''"

definition emptyAnalysis :: MeetingAnalysis where
  "emptyAnalysis =
     \<lparr>summary =
         ''Meeting focused on key business discussions and strategic planning. Participants reviewed current progress, discussed upcoming milestones, and aligned on next steps for continued success.'',
      actionItems =
        [\<lparr>id_a = ''uuid-00'',
          description_a = ''Schedule follow-up meeting to review progress'',
          priority_a = Medium, category = ''General''\<rparr>,
         \<lparr>id_a = ''uuid-01'',
          description_a = ''Share meeting summary with all stakeholders'',
          priority_a = Low, category = ''Communication''\<rparr>],
      tasks =
        [\<lparr>id_t = ''uuid-02'',
          description_t = ''Review and finalize project requirements'',
          assignee = ''Team Lead'', dueDate = ''2026-11-06'', priority_t = High, status = Pending\<rparr>,
         \<lparr>id_t = ''uuid-03'',
          description_t = ''Prepare client presentation materials'',
          assignee = ''Project Manager'', dueDate = ''2026-11-07'', priority_t = Medium, status = Pending\<rparr>,
         \<lparr>id_t = ''uuid-04'',
          description_t = ''Update project timeline and milestones'',
          assignee = ''Developer'', dueDate = ''2026-11-08'', priority_t = Medium, status = Pending\<rparr>,
         \<lparr>id_t = ''uuid-05'',
          description_t = ''Conduct stakeholder feedback session'',
          assignee = ''Analyst'', dueDate = ''2026-11-09'', priority_t = Medium, status = Pending\<rparr>],
      keyTopics = [],
      nextSteps =
        [''Distribute meeting summary to all participants'',
         ''Set up follow-up meetings for high-priority items'',
         ''Monitor task completion and provide updates'',
         ''Ensure high-priority tasks have adequate resources'']\<rparr>"

definition shiftedTranscript :: string where
  "shiftedTranscript = ''... Assign it.''"

definition shiftedAnalysis :: MeetingAnalysis where
  "shiftedAnalysis =
     \<lparr>summary =
         ''Meeting focused on key business discussions and strategic planning. Participants reviewed current progress, discussed upcoming milestones, and aligned on next steps for continued success.'',
      actionItems =
        [\<lparr>id_a = ''uuid-00'',
          description_a = ''Schedule follow-up meeting to review progress'',
          priority_a = Medium, category = ''General''\<rparr>,
         \<lparr>id_a = ''uuid-01'',
          description_a = ''Share meeting summary with all stakeholders'',
          priority_a = Low, category = ''Communication''\<rparr>],
      tasks =
        [\<lparr>id_t = ''uuid-02'',
          description_t = ''Assign it'',
          assignee = ''Project Manager'', dueDate = ''2026-11-11'', priority_t = Low, status = Pending\<rparr>],
      keyTopics = [''team coordination''],
      nextSteps =
        [''Distribute meeting summary to all participants'',
         ''Set up follow-up meetings for high-priority items'',
         ''Monitor task completion and provide updates'']\<rparr>"

definition crowdedTranscript :: string where
  "crowdedTranscript = ''Must a. Due a. Must b. Due b. Must c. Due c. Must d. Due d. Must e. Due e. Must f. Due f. Must g''"

definition crowdedAnalysis :: MeetingAnalysis where
  "crowdedAnalysis =
     \<lparr>summary =
         ''Meeting focused on key business discussions and strategic planning. Participants reviewed current progress, discussed upcoming milestones, and aligned on next steps for continued success.'',
      actionItems =
        [\<lparr>id_a = ''uuid-00'',
          description_a = ''Must a'',
          priority_a = Low, category = ''General''\<rparr>,
         \<lparr>id_a = ''uuid-01'',
          description_a = ''Must b'',
          priority_a = Low, category = ''General''\<rparr>,
         \<lparr>id_a = ''uuid-02'',
          description_a = ''Must c'',
          priority_a = Low, category = ''General''\<rparr>,
         \<lparr>id_a = ''uuid-03'',
          description_a = ''Must d'',
          priority_a = Low, category = ''General''\<rparr>,
         \<lparr>id_a = ''uuid-04'',
          description_a = ''Must e'',
          priority_a = Low, category = ''General''\<rparr>,
         \<lparr>id_a = ''uuid-05'',
          description_a = ''Must f'',
          priority_a = Low, category = ''General''\<rparr>],
      tasks =
        [\<lparr>id_t = ''uuid-07'',
          description_t = ''Due a'',
          assignee = ''Project Manager'', dueDate = ''2026-11-11'', priority_t = Low, status = Pending\<rparr>,
         \<lparr>id_t = ''uuid-08'',
          description_t = ''Due b'',
          assignee = ''Analyst'', dueDate = ''2026-11-11'', priority_t = Low, status = Pending\<rparr>,
         \<lparr>id_t = ''uuid-09'',
          description_t = ''Due c'',
          assignee = ''Project Manager'', dueDate = ''2026-11-11'', priority_t = Low, status = Pending\<rparr>,
         \<lparr>id_t = ''uuid-10'',
          description_t = ''Due d'',
          assignee = ''Analyst'', dueDate = ''2026-11-11'', priority_t = Low, status = Pending\<rparr>,
         \<lparr>id_t = ''uuid-11'',
          description_t = ''Due e'',
          assignee = ''Project Manager'', dueDate = ''2026-11-11'', priority_t = Low, status = Pending\<rparr>],
      keyTopics = [],
      nextSteps =
        [''Distribute meeting summary to all participants'',
         ''Set up follow-up meetings for high-priority items'',
         ''Monitor task completion and provide updates'']\<rparr>"

definition clientTranscript :: string where
  "clientTranscript = ''Review the client budget.''"

definition clientAnalysis :: MeetingAnalysis where
  "clientAnalysis =
     \<lparr>summary =
         ''Meeting focused on key business discussions and strategic planning. Participants reviewed current progress, discussed upcoming milestones, and aligned on next steps for continued success.'',
      actionItems =
        [\<lparr>id_a = ''uuid-00'',
          description_a = ''Review the client budget'',
          priority_a = Low, category = ''Client Relations''\<rparr>],
      tasks =
        [\<lparr>id_t = ''uuid-01'',
          description_t = ''Review and finalize project requirements'',
          assignee = ''Team Lead'', dueDate = ''2026-11-06'', priority_t = High, status = Pending\<rparr>,
         \<lparr>id_t = ''uuid-02'',
          description_t = ''Prepare client presentation materials'',
          assignee = ''Project Manager'', dueDate = ''2026-11-07'', priority_t = Medium, status = Pending\<rparr>,
         \<lparr>id_t = ''uuid-03'',
          description_t = ''Update project timeline and milestones'',
          assignee = ''Developer'', dueDate = ''2026-11-08'', priority_t = Medium, status = Pending\<rparr>,
         \<lparr>id_t = ''uuid-04'',
          description_t = ''Conduct stakeholder feedback session'',
          assignee = ''Analyst'', dueDate = ''2026-11-09'', priority_t = Medium, status = Pending\<rparr>],
      keyTopics = [''client relations''],
      nextSteps =
        [''Distribute meeting summary to all participants'',
         ''Set up follow-up meetings for high-priority items'',
         ''Monitor task completion and provide updates'',
         ''Ensure high-priority tasks have adequate resources'']\<rparr>"

definition agreedTranscript :: string where
  "agreedTranscript = ''We agreed. He agreed. She agreed. I agreed. All agreed''"

definition agreedAnalysis :: MeetingAnalysis where
  "agreedAnalysis =
     \<lparr>summary =
         ''We agreed. He agreed. She agreed. I agreed.'',
      actionItems =
        [\<lparr>id_a = ''uuid-00'',
          description_a = ''Schedule follow-up meeting to review progress'',
          priority_a = Medium, category = ''General''\<rparr>,
         \<lparr>id_a = ''uuid-01'',
          description_a = ''Share meeting summary with all stakeholders'',
          priority_a = Low, category = ''Communication''\<rparr>],
      tasks =
        [\<lparr>id_t = ''uuid-02'',
          description_t = ''Review and finalize project requirements'',
          assignee = ''Team Lead'', dueDate = ''2026-11-06'', priority_t = High, status = Pending\<rparr>,
         \<lparr>id_t = ''uuid-03'',
          description_t = ''Prepare client presentation materials'',
          assignee = ''Project Manager'', dueDate = ''2026-11-07'', priority_t = Medium, status = Pending\<rparr>,
         \<lparr>id_t = ''uuid-04'',
          description_t = ''Update project timeline and milestones'',
          assignee = ''Developer'', dueDate = ''2026-11-08'', priority_t = Medium, status = Pending\<rparr>,
         \<lparr>id_t = ''uuid-05'',
          description_t = ''Conduct stakeholder feedback session'',
          assignee = ''Analyst'', dueDate = ''2026-11-09'', priority_t = Medium, status = Pending\<rparr>],
      keyTopics = [],
      nextSteps =
        [''Distribute meeting summary to all participants'',
         ''Set up follow-up meetings for high-priority items'',
         ''Monitor task completion and provide updates'',
         ''Ensure high-priority tasks have adequate resources'']\<rparr>"

definition helloTranscript :: string where
  "helloTranscript = ''Hello everyone. Nice weather today!''"

definition helloAnalysis :: MeetingAnalysis where
  "helloAnalysis =
     \<lparr>summary =
         ''Meeting focused on key business discussions and strategic planning. Participants reviewed current progress, discussed upcoming milestones, and aligned on next steps for continued success.'',
      actionItems =
        [\<lparr>id_a = ''uuid-00'',
          description_a = ''Schedule follow-up meeting to review progress'',
          priority_a = Medium, category = ''General''\<rparr>,
         \<lparr>id_a = ''uuid-01'',
          description_a = ''Share meeting summary with all stakeholders'',
          priority_a = Low, category = ''Communication''\<rparr>],
      tasks =
        [\<lparr>id_t = ''uuid-02'',
          description_t = ''Review and finalize project requirements'',
          assignee = ''Sarah'', dueDate = ''2026-11-06'', priority_t = High, status = Pending\<rparr>,
         \<lparr>id_t = ''uuid-03'',
          description_t = ''Prepare client presentation materials'',
          assignee = ''Mike'', dueDate = ''2026-11-07'', priority_t = Medium, status = Pending\<rparr>,
         \<lparr>id_t = ''uuid-04'',
          description_t = ''Update project timeline and milestones'',
          assignee = ''Lisa'', dueDate = ''2026-11-08'', priority_t = Medium, status = Pending\<rparr>,
         \<lparr>id_t = ''uuid-05'',
          description_t = ''Conduct stakeholder feedback session'',
          assignee = ''Sarah'', dueDate = ''2026-11-09'', priority_t = Medium, status = Pending\<rparr>],
      keyTopics = [],
      nextSteps =
        [''Distribute meeting summary to all participants'',
         ''Set up follow-up meetings for high-priority items'',
         ''Monitor task completion and provide updates'',
         ''Ensure high-priority tasks have adequate resources'']\<rparr>"

text \<open>\<open>env2\<close> is \<open>env0\<close> with other ids.\<close>

definition env2 :: env where
  "env2 = \<lparr>uuidv4 = (\<lambda>k. ''id-'' @ [digit (k div 10), digit k]), mathRandom = (\<lambda>k. 1 / 2),
           dateNow = (\<lambda>k. 1793664000000)\<rparr>"

definition roundRobinOtherIdsAnalysis :: MeetingAnalysis where
  "roundRobinOtherIdsAnalysis =
     \<lparr>summary =
         ''Meeting focused on key business discussions and strategic planning. Participants reviewed current progress, discussed upcoming milestones, and aligned on next steps for continued success.'',
      actionItems =
        [\<lparr>id_a = ''id-00'',
          description_a = ''Schedule follow-up meeting to review progress'',
          priority_a = Medium, category = ''General''\<rparr>,
         \<lparr>id_a = ''id-01'',
          description_a = ''Share meeting summary with all stakeholders'',
          priority_a = Low, category = ''Communication''\<rparr>],
      tasks =
        [\<lparr>id_t = ''id-02'',
          description_t = ''Assign it'',
          assignee = ''Sarah'', dueDate = ''2026-11-11'', priority_t = Low, status = Pending\<rparr>,
         \<lparr>id_t = ''id-03'',
          description_t = ''Handle it'',
          assignee = ''Lisa'', dueDate = ''2026-11-11'', priority_t = Low, status = Pending\<rparr>,
         \<lparr>id_t = ''id-04'',
          description_t = ''Finish it'',
          assignee = ''Lisa'', dueDate = ''2026-11-11'', priority_t = Low, status = Pending\<rparr>],
      keyTopics = [''team coordination''],
      nextSteps =
        [''Distribute meeting summary to all participants'',
         ''Set up follow-up meetings for high-priority items'',
         ''Monitor task completion and provide updates'']\<rparr>"

section \<open>Properties\<close>

subsection \<open>Lower case\<close>

text \<open>On a capital letter, setting bit 5 adds 32 to the code unit.\<close>

lemma plus32_isUpper:
  assumes "isUpper c"
  shows "(of_char (plus32 c) :: nat) = of_char c + 32"
proof (cases c)
  case (Char b0 b1 b2 b3 b4 b5 b6 b7)
  then show ?thesis
    using assms
    by (cases b0; cases b1; cases b2; cases b3; cases b4; cases b5; cases b6; cases b7;
        simp add: isUpper_def Let_def)
qed

subsection \<open>Action items\<close>

lemma actionItemsLoop_eq:
  "actionItemsLoop e ss (c, items) =
     (c\<lparr>uuidCalls := uuidCalls c + length (filter isActionSentence ss)\<rparr>,
      items @ matchedActionItems e (uuidCalls c) ss)"
proof (induction ss arbitrary: c items)
  case Nil
  show ?case by (simp add: matchedActionItems_def)
next
  case (Cons s ss)
  show ?case
  proof (cases "isActionSentence s")
    case True
    then show ?thesis
      using Cons.IH [of "c\<lparr>uuidCalls := uuidCalls c + 1\<rparr>"]
      by (simp add: isActionSentence_def callUuidv4_def matchedActionItems_def actionItemOf_def Let_def)
  next
    case False
    then show ?thesis
      using Cons.IH [of c items]
      by (simp add: isActionSentence_def matchedActionItems_def Let_def)
  qed
qed

lemma length_matchedActionItems [simp]:
  "length (matchedActionItems e k ss) = length (filter isActionSentence ss)"
  by (simp add: matchedActionItems_def)

lemma matchedActionItems_Nil [simp]:
  "matchedActionItems e k ss = [] \<longleftrightarrow> filter isActionSentence ss = []"
  using length_matchedActionItems [of e k ss] by (simp only: flip: length_0_conv)

lemma extractActionItems_eq:
  "extractActionItems e c transcript =
     (let ms = filter isActionSentence (splitSentences transcript)
      in if ms = []
         then (c\<lparr>uuidCalls := uuidCalls c + 2\<rparr>, snd (defaultActionItems e c))
         else (c\<lparr>uuidCalls := uuidCalls c + length ms\<rparr>,
               take 6 (matchedActionItems e (uuidCalls c) (splitSentences transcript))))"
  by (simp add: extractActionItems_def actionItemsLoop_eq Let_def
                defaultActionItems_def callUuidv4_def)

subsection \<open>Tasks\<close>

lemma advance_simps [simp]:
  "uuidCalls (advance n c) = uuidCalls c + n"
  "randomCalls (advance n c) = randomCalls c + n"
  "nowCalls (advance n c) = nowCalls c + n"
  "advance 0 c = c"
  "advance n (advance (Suc 0) c) = advance (Suc n) c"
  by (simp_all add: advance_def)

lemma taskDueDate_advance: "taskDueDate e (advance (Suc 0) c) j = taskDueDate e c (Suc j)"
  by (simp add: taskDueDate_def)

lemma taskOf_advance: "taskOf e as (advance (Suc 0) c) (j, x) = taskOf e as c (Suc j, x)"
  by (cases x) (simp add: taskOf_def taskDueDate_advance)

lemma map_taskOf_advance:
  "map (taskOf e as (advance (Suc 0) c)) (enumerate k xs) = map (taskOf e as c) (enumerate (Suc k) xs)"
  by (induction xs arbitrary: k) (simp_all add: taskOf_advance)

lemma datesOK_Suc:
  "datesOK e c (Suc n) \<longleftrightarrow> taskDueDate e c 0 \<noteq> Inl RangeError \<and> datesOK e (advance (Suc 0) c) n"
  by (simp add: datesOK_def All_less_Suc2 taskDueDate_advance)

lemma datesOK_0 [simp]: "datesOK e c 0"
  by (simp add: datesOK_def)

declare yearFromDays.simps [simp del]

lemma length_taskMatches:
  "length (taskMatches index ss) = length (filter isTaskSentence ss)"
  by (induction ss arbitrary: index) (simp_all add: taskMatches_def)

lemma tasksLoop_skip:
  "\<not> isTaskSentence s \<Longrightarrow>
   tasksLoop e as (s # ss) index (c, acc) = tasksLoop e as ss (Suc index) (c, acc)"
  by (simp add: isTaskSentence_def)

lemma tasksLoop_fail:
  "isTaskSentence s \<Longrightarrow> taskDueDate e c 0 = Inl err \<Longrightarrow>
   tasksLoop e as (s # ss) index (c, acc) = Inl RangeError"
  by (cases err) (simp add: isTaskSentence_def callNow_def callRandom_def taskDueDate_def)

lemma advance_Suc_0:
  "c\<lparr>nowCalls := Suc (nowCalls c), randomCalls := Suc (randomCalls c),
      uuidCalls := Suc (uuidCalls c)\<rparr> = advance (Suc 0) c"
  by (simp add: advance_def)

lemma tasksLoop_push:
  assumes "isTaskSentence s" and "taskDueDate e c 0 = Inr d"
  shows "tasksLoop e as (s # ss) index (c, acc) =
           tasksLoop e as ss (Suc index) (advance (Suc 0) c, acc @ [taskOf e as c (0, index, s)])"
proof -
  have "isoDate (dateNow e (nowCalls c) + randomDays (mathRandom e (randomCalls c)) * 24 * 60 * 60 * 1000) = Inr d"
    using assms(2) by (simp add: taskDueDate_def)
  then show ?thesis
    using assms
    by (simp add: isTaskSentence_def callNow_def callRandom_def callUuidv4_def taskOf_def
                  advance_Suc_0)
qed

lemma taskMatches_Cons:
  "taskMatches index (s # ss) =
     (if isTaskSentence s then [(index, s)] else []) @ taskMatches (Suc index) ss"
  by (simp add: taskMatches_def)

lemma matchedTasks_Cons:
  "matchedTasks e as c index (s # ss) =
     (if isTaskSentence s
      then taskOf e as c (0, index, s) # matchedTasks e as (advance (Suc 0) c) (Suc index) ss
      else matchedTasks e as c (Suc index) ss)"
  by (simp add: matchedTasks_def taskMatches_Cons map_taskOf_advance)

lemma tasksLoop_eq:
  "tasksLoop e as ss index (c, acc) =
     (let n = length (filter isTaskSentence ss)
      in if datesOK e c n then Inr (advance n c, acc @ matchedTasks e as c index ss)
         else Inl RangeError)"
proof (induction ss arbitrary: index c acc)
  case Nil
  show ?case by (simp add: matchedTasks_def taskMatches_def)
next
  case (Cons s ss)
  show ?case
  proof (cases "isTaskSentence s")
    case False
    then show ?thesis
      unfolding tasksLoop_skip [OF False] Cons.IH matchedTasks_Cons by simp
  next
    case True
    show ?thesis
    proof (cases "taskDueDate e c 0")
      case (Inl err)
      then have "\<not> datesOK e c (Suc (length (filter isTaskSentence ss)))"
        by (cases err) (simp add: datesOK_Suc)
      then show ?thesis
        unfolding tasksLoop_fail [OF True Inl] using True by simp
    next
      case (Inr d)
      then have "datesOK e c (Suc n) = datesOK e (advance (Suc 0) c) n" for n
        by (simp add: datesOK_Suc)
      then show ?thesis
        unfolding tasksLoop_push [OF True Inr] Cons.IH matchedTasks_Cons using True by simp
    qed
  qed
qed

lemma defaultTasksLoop_fail:
  assumes "defaultDueDate e c k = Inl err"
  shows "defaultTasksLoop e as (taskDesc # rest) k (advanceDefault k c, acc) = Inl RangeError"
proof -
  have "isoDate (dateNow e (nowCalls c + k) + (k + 3) * 24 * 60 * 60 * 1000) = Inl RangeError"
    using assms by (cases err) (simp add: defaultDueDate_def)
  then show ?thesis
    by (simp add: callUuidv4_def callNow_def advanceDefault_def)
qed

lemma defaultTasksLoop_push:
  assumes "defaultDueDate e c k = Inr d"
  shows "defaultTasksLoop e as (taskDesc # rest) k (advanceDefault k c, acc) =
           defaultTasksLoop e as rest (Suc k)
             (advanceDefault (Suc k) c, acc @ [defaultTaskOf e as c (k, taskDesc)])"
proof -
  have "isoDate (dateNow e (nowCalls c + k) + (k + 3) * 24 * 60 * 60 * 1000) = Inr d"
    using assms by (simp add: defaultDueDate_def)
  then show ?thesis
    using assms
    by (simp add: callUuidv4_def callNow_def advanceDefault_def defaultTaskOf_def)
qed

lemma defaultTasksLoop_general:
  "defaultTasksLoop e as ds k (advanceDefault k c, acc) =
     (if \<forall>j<length ds. defaultDueDate e c (k + j) \<noteq> Inl RangeError
      then Inr (advanceDefault (k + length ds) c, acc @ map (defaultTaskOf e as c) (enumerate k ds))
      else Inl RangeError)"
proof (induction ds arbitrary: k acc)
  case Nil
  show ?case by simp
next
  case (Cons taskDesc rest)
  show ?case
  proof (cases "defaultDueDate e c k")
    case (Inl err)
    then have "defaultDueDate e c k = Inl RangeError" by (cases err) simp
    then have "\<not> (\<forall>j<length (taskDesc # rest). defaultDueDate e c (k + j) \<noteq> Inl RangeError)"
      by (simp add: All_less_Suc2)
    then show ?thesis
      unfolding defaultTasksLoop_fail [OF Inl] by (simp only: if_False)
  next
    case (Inr d)
    then have "(\<forall>j<length (taskDesc # rest). defaultDueDate e c (k + j) \<noteq> Inl RangeError)
                 \<longleftrightarrow> (\<forall>j<length rest. defaultDueDate e c (Suc k + j) \<noteq> Inl RangeError)"
      by (simp add: All_less_Suc2)
    then show ?thesis
      unfolding defaultTasksLoop_push [OF Inr] Cons.IH by simp
  qed
qed

lemma defaultTasksLoop_eq:
  "defaultTasksLoop e as defaultTasks 0 (c, []) =
     (if defaultDatesOK e c
      then Inr (advanceDefault 4 c, map (defaultTaskOf e as c) (enumerate 0 defaultTasks))
      else Inl RangeError)"
proof -
  have c: "advanceDefault 0 c = c" by (simp add: advanceDefault_def)
  have len: "length defaultTasks = 4" by (simp add: defaultTasks_def)
  show ?thesis
    using defaultTasksLoop_general [of e as defaultTasks 0 c "[]"]
    by (simp add: c len defaultDatesOK_def)
qed

lemma length_matchedTasks [simp]:
  "length (matchedTasks e as c index ss) = length (filter isTaskSentence ss)"
  by (simp add: matchedTasks_def length_taskMatches)

lemma matchedTasks_Nil [simp]:
  "matchedTasks e as c index ss = [] \<longleftrightarrow> filter isTaskSentence ss = []"
  using length_matchedTasks [of e as c index ss] by (simp only: flip: length_0_conv)

lemma length_defaultTasks [simp]: "length defaultTasks = 4"
  by (simp add: defaultTasks_def)

lemma extractTasks_eq:
  "extractTasks e c transcript participants =
     (let ss = splitSentences transcript; n = length (filter isTaskSentence ss)
      in if n = 0
         then (if defaultDatesOK e c
               then Inr (advanceDefault 4 c,
                         map (defaultTaskOf e (roster participants) c) (enumerate 0 defaultTasks))
               else Inl RangeError)
         else (if datesOK e c n
               then Inr (advance n c, take 5 (matchedTasks e (roster participants) c 0 ss))
               else Inl RangeError))"
proof (cases "filter isTaskSentence (splitSentences transcript) = []")
  case True
  then have m: "matchedTasks e (roster participants) c 0 (splitSentences transcript) = []"
    by simp
  show ?thesis
    unfolding extractTasks_def roster_def [symmetric] Let_def tasksLoop_eq
    by (simp add: True m defaultTasksLoop_eq)
next
  case False
  then show ?thesis
    unfolding extractTasks_def roster_def [symmetric] Let_def tasksLoop_eq
    by simp
qed

lemma analyzeMeeting_eq:
  "analyzeMeeting e transcript participants =
     (let (c1, items) = extractActionItems e noCalls transcript
      in case extractTasks e c1 transcript participants of
           Inl err \<Rightarrow> Inl RangeError
         | Inr (c2, taskList) \<Rightarrow>
             Inr \<lparr>summary = generateSummary transcript (nonEmptySentences transcript),
                  actionItems = items, tasks = taskList,
                  keyTopics = topicsOf transcript,
                  nextSteps = generateNextSteps items taskList\<rparr>)"
proof -
  have "(Inl err :: error + MeetingAnalysis) = Inl RangeError" for err
    by (cases err) simp
  then show ?thesis
    by (simp add: analyzeMeeting_def topicsOf_def nonEmptySentences_def Let_def
             split: prod.splits sum.splits)
qed

subsection \<open>Blank sentences and the summary\<close>

lemma startsWith_set: "startsWith s k \<Longrightarrow> set k \<subseteq> set s"
  by (induction s k rule: startsWith.induct) auto

lemma includes_str_set: "includes_str s k \<Longrightarrow> set k \<subseteq> set s"
proof (induction s)
  case Nil
  then show ?case by simp
next
  case (Cons c cs)
  then show ?case using startsWith_set [of "c # cs" k] by auto
qed

lemma isBlank_iff: "isBlank s \<longleftrightarrow> (\<forall>c\<in>set s. isWhiteSpace c)"
proof -
  have "dropWhile isWhiteSpace s = [] \<longleftrightarrow> (\<forall>c\<in>set s. isWhiteSpace c)"
    by (simp add: dropWhile_eq_Nil_conv)
  moreover have "dropWhile isWhiteSpace (rev (dropWhile isWhiteSpace s)) = []
                   \<longleftrightarrow> dropWhile isWhiteSpace s = []"
  proof
    assume a: "dropWhile isWhiteSpace (rev (dropWhile isWhiteSpace s)) = []"
    show "dropWhile isWhiteSpace s = []"
    proof (rule ccontr)
      assume n: "dropWhile isWhiteSpace s \<noteq> []"
      then have "\<not> isWhiteSpace (hd (dropWhile isWhiteSpace s))" by (rule hd_dropWhile)
      moreover have "hd (dropWhile isWhiteSpace s) \<in> set (rev (dropWhile isWhiteSpace s))"
        using n by simp
      ultimately show False using a by (auto simp add: dropWhile_eq_Nil_conv)
    qed
  next
    assume a: "dropWhile isWhiteSpace s = []"
    show "dropWhile isWhiteSpace (rev (dropWhile isWhiteSpace s)) = []"
      unfolding a by simp
  qed
  ultimately show ?thesis by (simp add: isBlank_def trim_def)
qed

lemma isWhiteSpace_not_isUpper: "isWhiteSpace c \<Longrightarrow> \<not> isUpper c"
  by (auto simp add: isWhiteSpace_def isUpper_def Let_def)

lemma toLowerCase_blank:
  assumes "isBlank s"
  shows "toLowerCase s = s"
proof -
  have "toLowerChar c = c" if "c \<in> set s" for c
    using that assms isWhiteSpace_not_isUpper [of c] by (simp add: isBlank_iff toLowerChar_def)
  then show ?thesis by (simp add: toLowerCase_def map_idI)
qed

lemma blank_not_included:
  assumes "isBlank s" and "x \<in> set k" and "\<not> isWhiteSpace x"
  shows "\<not> includes_str (toLowerCase s) k"
proof
  assume "includes_str (toLowerCase s) k"
  then have "set k \<subseteq> set s"
    using includes_str_set [of "toLowerCase s" k] assms(1) by (simp add: toLowerCase_blank)
  then show False using assms by (auto simp add: isBlank_iff)
qed

lemma blank_someIncluded:
  assumes "isBlank s" and "list_all (\<lambda>k. \<not> isWhiteSpace (hd k) \<and> k \<noteq> []) keywords"
  shows "\<not> someIncluded keywords (toLowerCase s)"
proof -
  have "\<not> includes_str (toLowerCase s) k" if "k \<in> set keywords" for k
  proof -
    from that assms(2) have "\<not> isWhiteSpace (hd k)" "hd k \<in> set k"
      by (auto simp add: list_all_iff)
    then show ?thesis using blank_not_included [OF assms(1)] by blast
  qed
  then show ?thesis by (auto simp add: someIncluded_def list_ex_iff)
qed

lemma keyPhrases_letters: "list_all (\<lambda>k. \<not> isWhiteSpace (hd k) \<and> k \<noteq> []) keyPhrases"
  by (simp add: keyPhrases_def isWhiteSpace_def)

lemma taskKeywords_letters: "list_all (\<lambda>k. \<not> isWhiteSpace (hd k) \<and> k \<noteq> []) taskKeywords"
  by (simp add: taskKeywords_def isWhiteSpace_def)

lemma actionKeywords_letters: "list_all (\<lambda>k. \<not> isWhiteSpace (hd k) \<and> k \<noteq> []) actionKeywords"
  by (simp add: actionKeywords_def isWhiteSpace_def)

lemma blank_not_hasKeyPhrase: "isBlank s \<Longrightarrow> \<not> hasKeyPhrase s"
  unfolding hasKeyPhrase_def by (rule blank_someIncluded [OF _ keyPhrases_letters])

lemma blank_not_isTaskSentence: "isBlank s \<Longrightarrow> \<not> isTaskSentence s"
  unfolding isTaskSentence_def by (rule blank_someIncluded [OF _ taskKeywords_letters])

lemma blank_not_isActionSentence: "isBlank s \<Longrightarrow> \<not> isActionSentence s"
  unfolding isActionSentence_def by (rule blank_someIncluded [OF _ actionKeywords_letters])

lemma filter_hasKeyPhrase_nonEmpty:
  "filter hasKeyPhrase (nonEmptySentences transcript) =
   filter hasKeyPhrase (splitSentences transcript)"
proof -
  have "hasKeyPhrase s \<and> 0 < length (trim s) \<longleftrightarrow> hasKeyPhrase s" for s
    using blank_not_hasKeyPhrase [of s] by (auto simp add: isBlank_def)
  then show ?thesis by (simp add: nonEmptySentences_def conj_commute)
qed

lemma generateSummary_eq:
  "generateSummary transcript (nonEmptySentences transcript) = summaryOfAllSentences transcript"
  unfolding generateSummary_def summaryOfAllSentences_def Let_def
            hasKeyPhrase_def [symmetric] filter_hasKeyPhrase_nonEmpty
  by (auto simp add: min_def)

subsection \<open>Calendar dates\<close>

lemma dayFromYear_Suc:
  assumes "1970 \<le> y"
  shows "dayFromYear (Suc y) = dayFromYear y + daysInYear y"
proof -
  obtain k where y: "y = 1970 + k" using assms by (metis le_Suc_ex)
  define a b c where "a = (k + 1) div 4" and "b = (k + 69) div 100" and "c = (k + 369) div 400"
  define L4 L100 L400 where "L4 \<longleftrightarrow> y mod 4 = 0" and "L100 \<longleftrightarrow> y mod 100 = 0"
    and "L400 \<longleftrightarrow> y mod 400 = 0"
  have y4: "y = 4 * 492 + Suc (k + 1)" and y100: "y = 100 * 19 + Suc (k + 69)"
    and y400: "y = 400 * 4 + Suc (k + 369)"
    by (simp_all add: y)
  have m4: "Suc (k + 1) mod 4 = 0 \<longleftrightarrow> L4"
    unfolding L4_def by (subst y4) (simp only: mod_mult_self4)
  have m100: "Suc (k + 69) mod 100 = 0 \<longleftrightarrow> L100"
    unfolding L100_def by (subst y100) (simp only: mod_mult_self4)
  have m400: "Suc (k + 369) mod 400 = 0 \<longleftrightarrow> L400"
    unfolding L400_def by (subst y400) (simp only: mod_mult_self4)
  have e1: "(k + 2) div 4 = a + (if L4 then 1 else 0)"
    using div_Suc [of "k + 1" 4] m4 by (simp add: a_def add.commute)
  have e2: "(k + 70) div 100 = b + (if L100 then 1 else 0)"
    using div_Suc [of "k + 69" 100] m100 by (simp add: b_def add.commute)
  have e3: "(k + 370) div 400 = c + (if L400 then 1 else 0)"
    using div_Suc [of "k + 369" 400] m400 by (simp add: c_def add.commute)
  have le: "b \<le> k" unfolding b_def by (simp add: div_le_mono div_le_dividend le_trans [OF div_le_mono [of "k + 69" "100 * k + 69" 100]])
  have i1: "L400 \<Longrightarrow> L100"
    unfolding L400_def L100_def mod_eq_0_iff_dvd by (rule dvd_trans [of 100 400]) simp_all
  have i2: "L100 \<Longrightarrow> L4"
    unfolding L100_def L4_def mod_eq_0_iff_dvd by (rule dvd_trans [of 4 100]) simp_all
  have old: "dayFromYear y = 365 * k + a - b + c"
    by (simp add: dayFromYear_def y a_def b_def c_def add.commute)
  have new: "dayFromYear (Suc y) = 365 * (k + 1) + (k + 2) div 4 - (k + 70) div 100 + (k + 370) div 400"
    by (simp add: dayFromYear_def y add.commute)
  have leap: "daysInYear y = (if (L4 \<and> \<not> L100) \<or> L400 then 366 else 365)"
    by (simp add: daysInYear_def isLeapYear_def L4_def L100_def L400_def)
  show ?thesis
    unfolding old new leap e1 e2 e3 using le i1 i2
    by (cases L4; cases L100; cases L400; simp)
qed

lemma dayFromYear_mono:
  assumes "1970 \<le> y" and "y \<le> z"
  shows "dayFromYear y \<le> dayFromYear z"
  using assms(2,1)
proof (induction rule: dec_induct)
  case base
  show ?case by simp
next
  case (step n)
  then show ?case using dayFromYear_Suc [of n] by simp
qed

lemma yearFromDays_eq:
  assumes "1970 \<le> y" and "yearFromDays y n = (y', r)"
  shows "y \<le> y' \<and> r < daysInYear y' \<and> dayFromYear y + n = dayFromYear y' + r"
  using assms
proof (induction y n rule: yearFromDays.induct)
  case (1 y n)
  show ?case
  proof (cases "n < daysInYear y")
    case True
    then show ?thesis using "1.prems" by (simp add: yearFromDays.simps [of y n])
  next
    case False
    then have "yearFromDays (Suc y) (n - daysInYear y) = (y', r)"
      using "1.prems" by (simp add: yearFromDays.simps [of y n])
    then have "Suc y \<le> y' \<and> r < daysInYear y' \<and>
               dayFromYear (Suc y) + (n - daysInYear y) = dayFromYear y' + r"
      using "1.IH" [OF False] "1.prems"(1) by simp
    then show ?thesis
      using False dayFromYear_Suc [OF "1.prems"(1)] by simp
  qed
qed

lemma dayFromYear_1970 [simp]: "dayFromYear 1970 = 0"
  by (simp add: dayFromYear_def)

lemma yearFromDays_unique:
  assumes "1970 \<le> y'" and "dayFromYear y' \<le> n" and "n < dayFromYear (Suc y')"
  shows "yearFromDays 1970 n = (y', n - dayFromYear y')"
proof -
  obtain y r where yr: "yearFromDays 1970 n = (y, r)" by (cases "yearFromDays 1970 n")
  from yearFromDays_eq [OF _ yr]
  have y: "1970 \<le> y" and r: "r < daysInYear y" and n: "n = dayFromYear y + r" by simp_all
  have "y = y'"
  proof (rule ccontr)
    assume "y \<noteq> y'"
    then consider "Suc y \<le> y'" | "Suc y' \<le> y" by linarith
    then show False
    proof cases
      case 1
      then have "dayFromYear (Suc y) \<le> dayFromYear y'"
        using dayFromYear_mono [of "Suc y" y'] y by simp
      then show False using dayFromYear_Suc [OF y] r n assms(2) by simp
    next
      case 2
      then have "dayFromYear (Suc y') \<le> dayFromYear y"
        using dayFromYear_mono [of "Suc y'" y] assms(1) by simp
      then show False using n assms(3) by simp
    qed
  qed
  then show ?thesis using yr n by simp
qed

lemma yearFromDays_le_9999:
  assumes "n < 2932897" and "yearFromDays 1970 n = (y, r)"
  shows "1970 \<le> y \<and> y \<le> 9999"
proof -
  from yearFromDays_eq [OF _ assms(2)]
  have y: "1970 \<le> y" and n: "n = dayFromYear y + r" by simp_all
  have "y < 10000"
  proof (rule ccontr)
    assume "\<not> y < 10000"
    then have "dayFromYear 10000 \<le> dayFromYear y"
      using dayFromYear_mono [of 10000 y] by simp
    moreover have "dayFromYear 10000 = 2932897" by (simp add: dayFromYear_def)
    ultimately show False using n assms(1) by simp
  qed
  then show ?thesis using y by simp
qed

text \<open>
  The month and the day of a date are in range, so that \<open>pad2\<close> writes them in full.
\<close>

lemma monthFromDays_bounds:
  assumes "monthFromDays ls m n = (m', d)" and "n < sum_list ls" and "\<forall>l\<in>set ls. l \<le> 31"
  shows "m \<le> m' \<and> m' < m + length ls \<and> 1 \<le> d \<and> d \<le> 31"
  using assms
proof (induction ls arbitrary: m n)
  case Nil
  then show ?case by simp
next
  case (Cons l ls)
  show ?case
  proof (cases "n < l")
    case True
    then show ?thesis using Cons.prems by auto
  next
    case False
    then have "monthFromDays ls (m + 1) (n - l) = (m', d)" "n - l < sum_list ls"
      using Cons.prems by auto
    then have "m + 1 \<le> m' \<and> m' < m + 1 + length ls \<and> 1 \<le> d \<and> d \<le> 31"
      using Cons.IH [of "m + 1" "n - l"] Cons.prems(3) by simp
    then show ?thesis by simp
  qed
qed

lemma monthFromDays_calendar:
  assumes "monthFromDays (monthLengths leap) 1 n = (m, d)"
    and "n < (if leap then 366 else 365)"
  shows "1 \<le> m \<and> m \<le> 12 \<and> 1 \<le> d \<and> d \<le> 31"
proof -
  have "n < sum_list (monthLengths leap)"
    using assms(2) by (cases leap) (simp_all add: monthLengths_def)
  moreover have "\<forall>l\<in>set (monthLengths leap). l \<le> 31" by (simp add: monthLengths_def)
  ultimately show ?thesis
    using monthFromDays_bounds [OF assms(1)] by (simp add: monthLengths_def)
qed

lemma calendarDate_fields:
  "\<exists>y m d. 1970 \<le> y \<and> 1 \<le> m \<and> m \<le> 12 \<and> 1 \<le> d \<and> d \<le> 31 \<and>
     calendarDate t =
       (if y \<le> 9999 then pad4 y else ''+'' @ pad6 y) @ ''-'' @ pad2 m @ ''-'' @ pad2 d"
proof -
  obtain y n where yn: "yearFromDays 1970 (t div msPerDay) = (y, n)"
    by (cases "yearFromDays 1970 (t div msPerDay)")
  obtain m d where md: "monthFromDays (monthLengths (isLeapYear y)) 1 n = (m, d)"
    by (cases "monthFromDays (monthLengths (isLeapYear y)) 1 n")
  from yearFromDays_eq [OF _ yn] have y: "1970 \<le> y" and n: "n < daysInYear y" by simp_all
  have b: "1 \<le> m \<and> m \<le> 12 \<and> 1 \<le> d \<and> d \<le> 31"
    using monthFromDays_calendar [OF md] n by (simp add: daysInYear_def)
  have eq: "calendarDate t =
              (if y \<le> 9999 then pad4 y else ''+'' @ pad6 y) @ ''-'' @ pad2 m @ ''-'' @ pad2 d"
    using md by (simp add: calendarDate_def yn)
  show ?thesis using y b eq by blast
qed

lemma isDigit_digit [simp]: "isDigit (digit n)"
proof -
  have "n mod 10 < length ''0123456789''" by simp
  then show ?thesis unfolding isDigit_def digit_def by (rule nth_mem)
qed

lemma isDigit_not_T: "isDigit c \<Longrightarrow> c \<noteq> CHR ''T''"
  by (auto simp add: isDigit_def)

lemma digit_not_T [simp]: "digit n \<noteq> CHR ''T''" "CHR ''T'' \<noteq> digit n"
  using isDigit_not_T [OF isDigit_digit, of n] by auto

lemma calendarDate_no_T: "\<forall>c\<in>set (calendarDate t). c \<noteq> CHR ''T''"
proof -
  obtain y n where yn: "yearFromDays 1970 (t div msPerDay) = (y, n)"
    by (cases "yearFromDays 1970 (t div msPerDay)")
  obtain m d where md: "monthFromDays (monthLengths (isLeapYear y)) (Suc 0) n = (m, d)"
    by (cases "monthFromDays (monthLengths (isLeapYear y)) (Suc 0) n")
  show ?thesis
    by (auto simp add: calendarDate_def yn md pad2_def pad4_def pad6_def)
qed

lemma isoDate_eq:
  "isoDate t = (if maxTime < t then Inl RangeError else Inr (calendarDate t))"
proof (cases "maxTime < t")
  case True
  then show ?thesis by (simp add: isoDate_def toISOString_def)
next
  case False
  obtain rest where "toISOString t = Inr (calendarDate t @ CHR ''T'' # rest)"
    using False by (simp add: toISOString_def calendarDate_def Let_def split: prod.splits)
  then show ?thesis
    using False calendarDate_no_T [of t] by (simp add: isoDate_def takeWhile_append2)
qed

lemma calendarDate_shape:
  assumes "t < 253402300800000"
  shows "isCalendarDate (calendarDate t)"
proof -
  obtain y n where yn: "yearFromDays 1970 (t div msPerDay) = (y, n)"
    by (cases "yearFromDays 1970 (t div msPerDay)")
  have "t div msPerDay < 2932897" using assms by (simp add: msPerDay_def)
  then have "y \<le> 9999" using yearFromDays_le_9999 [OF _ yn] by simp
  then show ?thesis
    by (simp add: calendarDate_def yn isCalendarDate_def pad2_def pad4_def split: prod.splits)
qed

lemma calendarDate_2026:
  assumes "1767225600000 \<le> t" and "t < 1798761600000"
  shows "calendarDate t =
           ''2026-'' @ (let (m, d) = monthFromDays (monthLengths False) 1 (t div msPerDay - 20454)
                        in pad2 m @ ''-'' @ pad2 d)"
proof -
  have "20454 \<le> t div msPerDay" "t div msPerDay < 20819"
    using assms by (simp_all add: msPerDay_def)
  then have "yearFromDays 1970 (t div msPerDay) = (2026, t div msPerDay - 20454)"
    using yearFromDays_unique [of 2026 "t div msPerDay"] by (simp add: dayFromYear_def)
  then show ?thesis
    by (simp add: calendarDate_def isLeapYear_def pad4_def digit_def split: prod.splits)
qed

subsection \<open>The random delay\<close>

lemma floor_divide_numeral_rat [simp]:
  "\<lfloor>numeral a / numeral b :: rat\<rfloor> = numeral a div numeral b"
  by (metis floor_divide_of_int_eq of_int_numeral)

lemma roundHalfEven_lower: "\<lfloor>q\<rfloor> \<le> roundHalfEven q"
  by (simp add: roundHalfEven_def Let_def)

lemma roundHalfEven_upper: "roundHalfEven q \<le> \<lfloor>q\<rfloor> + 1"
  by (simp add: roundHalfEven_def Let_def)

lemma roundHalfEven_le_int:
  assumes "q \<le> of_int n"
  shows "roundHalfEven q \<le> n"
proof (cases "q = of_int n")
  case True
  then show ?thesis by (simp add: roundHalfEven_def)
next
  case False
  then have "q < of_int n" using assms by simp
  then have "\<lfloor>q\<rfloor> < n" by (simp add: floor_less_iff)
  then show ?thesis using roundHalfEven_upper [of q] by linarith
qed

lemma roundHalfEven_below:
  assumes "q \<le> of_int n - 7 / 8"
  shows "roundHalfEven q \<le> n - 1"
proof -
  have "q < of_int n" using assms by linarith
  then have f: "\<lfloor>q\<rfloor> \<le> n - 1" by (simp add: floor_less_iff)
  show ?thesis
  proof (cases "\<lfloor>q\<rfloor> = n - 1")
    case True
    then have "q - of_int \<lfloor>q\<rfloor> < 1 / 2" using assms by simp
    then show ?thesis using True by (simp add: roundHalfEven_def Let_def)
  next
    case False
    then have "\<lfloor>q\<rfloor> + 1 \<le> n - 1" using f by linarith
    then show ?thesis using roundHalfEven_upper [of q] by linarith
  qed
qed

lemma floorTimes14_range:
  assumes "0 \<le> r" and "r \<le> 1 - 1 / 2 ^ 53"
  shows "0 \<le> floorTimes14 r \<and> floorTimes14 r \<le> 13"
proof (cases "r * 14 < 1 / 2")
  case True
  then show ?thesis by (simp add: floorTimes14_def)
next
  case False
  define x where "x = r * 14"
  have x: "1 / 2 \<le> x" "x \<le> 14 - 14 / 2 ^ 53"
    using False assms(2) by (simp_all add: x_def)
  have u: "0 < ulp x" by (simp add: ulp_def)
  have "0 \<le> x / ulp x" using x u by simp
  then have "0 \<le> \<lfloor>x / ulp x\<rfloor>" by simp
  then have r0: "0 \<le> roundHalfEven (x / ulp x)"
    using roundHalfEven_lower [of "x / ulp x"] by linarith
  then have lo: "0 \<le> \<lfloor>of_int (roundHalfEven (x / ulp x)) * ulp x\<rfloor>"
    using u by simp
  have hi: "of_int (roundHalfEven (x / ulp x)) * ulp x < 14"
  proof (cases "x < 8")
    case True
    have "\<exists>n. x / ulp x \<le> of_int n \<and> of_int n * ulp x \<le> (8 :: rat)"
    proof -
      have "x / ulp x \<le> of_int (2 ^ 53) \<and> of_int (2 ^ 53 :: int) * ulp x \<le> (8 :: rat)" if "x < 1"
        using that by (simp add: ulp_def)
      moreover have "x / ulp x \<le> of_int (2 ^ 53) \<and> of_int (2 ^ 53 :: int) * ulp x \<le> (8 :: rat)"
        if "\<not> x < 1" "x < 2"
        using that by (simp add: ulp_def)
      moreover have "x / ulp x \<le> of_int (2 ^ 53) \<and> of_int (2 ^ 53 :: int) * ulp x \<le> (8 :: rat)"
        if "\<not> x < 2" "x < 4"
        using that by (simp add: ulp_def)
      moreover have "x / ulp x \<le> of_int (2 ^ 53) \<and> of_int (2 ^ 53 :: int) * ulp x \<le> (8 :: rat)"
        if "\<not> x < 4" "x < 8"
        using that by (simp add: ulp_def)
      ultimately show ?thesis using True by blast
    qed
    then obtain n where n: "x / ulp x \<le> of_int n" "of_int n * ulp x \<le> (8 :: rat)" by blast
    have "roundHalfEven (x / ulp x) \<le> n" using roundHalfEven_le_int [OF n(1)] .
    then have "(of_int (roundHalfEven (x / ulp x)) :: rat) \<le> of_int n" by simp
    then have "of_int (roundHalfEven (x / ulp x)) * ulp x \<le> of_int n * ulp x"
      using u by (simp add: mult_right_mono)
    then show ?thesis using n(2) by linarith
  next
    case False
    then have ulp: "ulp x = 1 / 2 ^ 49" by (simp add: ulp_def)
    have "x / ulp x \<le> of_int (14 * 2 ^ 49) - 7 / 8"
      using x(2) by (simp add: ulp)
    then have "roundHalfEven (x / ulp x) \<le> 14 * 2 ^ 49 - 1"
      by (rule roundHalfEven_below)
    then have "(of_int (roundHalfEven (x / ulp x)) :: rat) \<le> of_int (14 * 2 ^ 49 - 1)"
      by (simp only: of_int_le_iff)
    then have "of_int (roundHalfEven (x / ulp x)) * ulp x \<le> of_int (14 * 2 ^ 49 - 1) * ulp x"
      using u by (simp add: mult_right_mono)
    also have "\<dots> < 14" by (simp add: ulp)
    finally show ?thesis .
  qed
  then have "\<lfloor>of_int (roundHalfEven (x / ulp x)) * ulp x\<rfloor> \<le> 13"
    by (simp add: floor_le_iff)
  then show ?thesis using lo False by (simp add: floorTimes14_def x_def Let_def)
qed

lemma randomDays_range:
  assumes "0 \<le> r" and "r \<le> 1 - 1 / 2 ^ 53"
  shows "1 \<le> randomDays r \<and> randomDays r \<le> 14"
  using floorTimes14_range [OF assms] by (simp add: randomDays_def nat_le_iff)

lemma randomDays_half: "randomDays (1 / 2) = 8"
  by (simp add: randomDays_def floorTimes14_def ulp_def roundHalfEven_def Let_def)

lemma randomDays_15_16: "randomDays (15 / 16) = 14"
  by (simp add: randomDays_def floorTimes14_def ulp_def roundHalfEven_def Let_def)

lemma randomDays_0: "randomDays 0 = 1"
  by (simp add: randomDays_def floorTimes14_def ulp_def roundHalfEven_def Let_def)

lemma randomDays_largest: "randomDays (1 - 1 / 2 ^ 53) = 14"
  by (simp add: randomDays_def floorTimes14_def ulp_def roundHalfEven_def Let_def)

text \<open>
  Rounding matters: for the double \<open>r = (2^54 - 1) / (7 * 2^53)\<close> the exact product
  \<open>r * 14 = 4 - 2^-52\<close> lies halfway between two doubles and rounds to 4.
\<close>

lemma floorTimes14_tie:
  "floorTimes14 ((2 ^ 54 - 1) / (7 * 2 ^ 53)) = 4 \<and>
   \<lfloor>(2 ^ 54 - 1) / (7 * 2 ^ 53) * (14 :: rat)\<rfloor> = 3"
  by (simp add: floorTimes14_def ulp_def roundHalfEven_def Let_def)

subsection \<open>\<open>analyzeMeeting\<close>, field by field\<close>

lemma analyzeMeeting_Inr:
  assumes "analyzeMeeting e transcript participants = Inr r"
  obtains c2 where
    "extractTasks e (fst (extractActionItems e noCalls transcript)) transcript participants
       = Inr (c2, tasks r)"
    and "actionItems r = snd (extractActionItems e noCalls transcript)"
    and "summary r = generateSummary transcript (nonEmptySentences transcript)"
    and "keyTopics r = topicsOf transcript"
    and "nextSteps r = generateNextSteps (actionItems r) (tasks r)"
  using assms unfolding analyzeMeeting_eq
  by (auto split: prod.splits sum.splits)

lemma actionItems_eq:
  assumes "analyzeMeeting e transcript participants = Inr r"
  shows "actionItems r =
           (if filter isActionSentence (splitSentences transcript) = []
            then snd (defaultActionItems e noCalls)
            else take 6 (matchedActionItems e 0 (splitSentences transcript)))"
  using assms by (elim analyzeMeeting_Inr) (simp add: extractActionItems_eq Let_def noCalls_def)

lemma fst_extractActionItems:
  "fst (extractActionItems e noCalls transcript) = callsAfterActionItems transcript"
  by (simp add: extractActionItems_eq Let_def noCalls_def callsAfterActionItems_def)

lemma tasks_eq:
  assumes "analyzeMeeting e transcript participants = Inr r"
  shows "tasks r =
           (if filter isTaskSentence (splitSentences transcript) = []
            then map (defaultTaskOf e (roster participants) (callsAfterActionItems transcript))
                   (enumerate 0 defaultTasks)
            else take 5 (matchedTasks e (roster participants) (callsAfterActionItems transcript) 0
                           (splitSentences transcript)))"
  using assms
  by (elim analyzeMeeting_Inr)
     (simp add: fst_extractActionItems extractTasks_eq Let_def split: if_splits)

lemma analyzeMeeting_succeeds:
  assumes "extractTasks e (callsAfterActionItems transcript) transcript participants = Inr (c2, ts)"
  shows "\<exists>r. analyzeMeeting e transcript participants = Inr r"
proof -
  obtain items where "extractActionItems e noCalls transcript =
                        (callsAfterActionItems transcript, items)"
    using fst_extractActionItems [of e transcript]
    by (cases "extractActionItems e noCalls transcript") simp
  then show ?thesis
    unfolding analyzeMeeting_eq using assms by simp
qed

subsection \<open>Descriptions and assignees of the pushed items\<close>

lemma specSummary_eq: "specSummary transcript = summaryOfAllSentences transcript"
proof -
  have "specKeyPhrases = keyPhrases" by (simp add: specKeyPhrases_def keyPhrases_def)
  then have "(\<lambda>s. \<exists>phrase\<in>set specKeyPhrases. includes_str (toLowerCase s) phrase) = hasKeyPhrase"
    by (simp add: hasKeyPhrase_def someIncluded_def list_ex_iff fun_eq_iff)
  then show ?thesis
    by (simp add: specSummary_def summaryOfAllSentences_def)
qed

lemma descriptions_matchedActionItems:
  "map description_a (matchedActionItems e k ss) = map trim (filter isActionSentence ss)"
proof -
  have "map (description_a \<circ> actionItemOf e) (enumerate k xs) = map trim xs" for xs
    by (induction xs arbitrary: k) (simp_all add: actionItemOf_def)
  then show ?thesis by (simp add: matchedActionItems_def)
qed

lemma map_snd_taskMatches: "map snd (taskMatches index ss) = filter isTaskSentence ss"
  by (induction ss arbitrary: index) (simp_all add: taskMatches_Cons, simp add: taskMatches_def)

lemma descriptions_matchedTasks:
  "map description_t (matchedTasks e as c index ss) = map trim (filter isTaskSentence ss)"
proof -
  have "map (description_t \<circ> taskOf e as c) (enumerate k xs) = map (trim \<circ> snd) xs" for xs k
    by (induction xs arbitrary: k) (simp_all add: taskOf_def split: prod.splits)
  then show ?thesis by (simp add: matchedTasks_def flip: map_snd_taskMatches [of index ss])
qed

lemma assignees_matchedTasks:
  "map assignee (matchedTasks e as c index ss) =
     map (\<lambda>(i, s). as ! (i mod length as)) (taskMatches index ss)"
proof -
  have "map (assignee \<circ> taskOf e as c) (enumerate k xs) =
          map (\<lambda>(i, s). as ! (i mod length as)) xs" for xs k
    by (induction xs arbitrary: k) (simp_all add: taskOf_def split: prod.splits)
  then show ?thesis by (simp add: matchedTasks_def)
qed

subsection \<open>The fallback analysis\<close>

lemma noTriggers_filters:
  assumes "noTriggers transcript"
  shows "filter hasKeyPhrase (splitSentences transcript) = []"
    and "filter isActionSentence (splitSentences transcript) = []"
    and "filter isTaskSentence (splitSentences transcript) = []"
    and "topicsOf transcript = []"
proof -
  from assms have s: "\<forall>s\<in>set (splitSentences transcript).
                        \<not> hasKeyPhrase s \<and> \<not> isActionSentence s \<and> \<not> isTaskSentence s"
    and w: "\<forall>(topic, keywords)\<in>set topicKeywords.
              \<forall>keyword\<in>set keywords. \<not> List.member (splitWords (toLowerCase transcript)) keyword"
    by (simp_all add: noTriggers_def list_all_iff case_prod_unfold)
  show "filter hasKeyPhrase (splitSentences transcript) = []"
    and "filter isActionSentence (splitSentences transcript) = []"
    and "filter isTaskSentence (splitSentences transcript) = []"
    using s by (simp_all add: filter_empty_conv)
  show "topicsOf transcript = []"
    using w by (auto simp add: topicsOf_def filter_empty_conv list_ex_iff)
qed

lemma defaultDueDate_valid:
  assumes "clockValid e" and "index < 4" and "nowCalls c = 0"
  shows "defaultDueDate e c index = Inr (calendarDate (dateNow e index + (index + 3) * msPerDay))"
proof -
  have "dateNow e index + 14 * msPerDay \<le> maxTime" using assms(1) by (simp add: clockValid_def)
  moreover have "(index + 3) * msPerDay \<le> 14 * msPerDay" using assms(2) by simp
  ultimately have le: "dateNow e index + (index + 3) * msPerDay \<le> maxTime" by linarith
  have eq: "dateNow e (nowCalls c + index) + (index + 3) * 24 * 60 * 60 * 1000 =
              dateNow e index + (index + 3) * msPerDay"
    by (simp add: assms(3) msPerDay_def)
  show ?thesis
    unfolding defaultDueDate_def eq isoDate_eq using le by simp
qed

lemma analyzeMeeting_fallback:
  assumes "noTriggers transcript" and "clockValid e"
  shows "analyzeMeeting e transcript participants = Inr (fallbackAnalysis e participants)"
proof -
  let ?c = "callsAfterActionItems transcript"
  note f = noTriggers_filters [OF assms(1)]
  have c: "?c = \<lparr>uuidCalls = 2, randomCalls = 0, nowCalls = 0\<rparr>"
    by (simp add: callsAfterActionItems_def f)
  have d: "defaultDueDate e ?c index = Inr (calendarDate (dateNow e index + (index + 3) * msPerDay))"
    if "index < 4" for index
    using defaultDueDate_valid [OF assms(2) that, of ?c] by (simp add: c)
  have ok: "defaultDatesOK e ?c"
    by (simp add: defaultDatesOK_def d)
  have items: "extractActionItems e noCalls transcript =
                 (?c, actionItems (fallbackAnalysis e participants))"
    by (simp add: extractActionItems_eq f c noCalls_def defaultActionItems_def callUuidv4_def
                  fallbackAnalysis_def)
  have en: "enumerate 0 defaultTasks =
              [(0, ''Review and finalize project requirements''),
               (1, ''Prepare client presentation materials''),
               (2, ''Update project timeline and milestones''),
               (3, ''Conduct stakeholder feedback session'')]"
    by (simp add: defaultTasks_def numeral_2_eq_2 numeral_3_eq_3)
  have tasks: "extractTasks e ?c transcript participants =
                 Inr (advanceDefault 4 ?c, tasks (fallbackAnalysis e participants))"
    unfolding extractTasks_eq Let_def f en
    using d [of 0] d [of 1] d [of 2] d [of 3]
    by (simp add: ok defaultTaskOf_def fallbackAnalysis_def) (simp add: c)
  have s: "generateSummary transcript (nonEmptySentences transcript) = genericSummary"
    by (simp add: generateSummary_eq summaryOfAllSentences_def f)
  show ?thesis
    unfolding analyzeMeeting_eq items
    by (simp add: tasks s f, simp add: fallbackAnalysis_def generateNextSteps_def baselineSteps_def)
qed

subsection \<open>Valid clocks\<close>

lemma taskDueDate_valid:
  assumes "randomInRange e" and "clockValid e"
  shows "taskDueDate e c j =
           Inr (calendarDate (dateNow e (nowCalls c + j)
                              + randomDays (mathRandom e (randomCalls c + j)) * msPerDay))"
proof -
  let ?d = "randomDays (mathRandom e (randomCalls c + j))"
  have "?d \<le> 14"
    using assms(1) randomDays_range [of "mathRandom e (randomCalls c + j)"]
    by (simp add: randomInRange_def)
  then have "?d * msPerDay \<le> 14 * msPerDay" by simp
  moreover have "dateNow e (nowCalls c + j) + 14 * msPerDay \<le> maxTime"
    using assms(2) by (simp add: clockValid_def)
  ultimately have le: "dateNow e (nowCalls c + j) + ?d * msPerDay \<le> maxTime" by linarith
  have eq: "dateNow e (nowCalls c + j) + ?d * 24 * 60 * 60 * 1000 =
              dateNow e (nowCalls c + j) + ?d * msPerDay"
    by (simp add: msPerDay_def)
  show ?thesis
    unfolding taskDueDate_def eq isoDate_eq using le by simp
qed

lemma datesOK_valid: "randomInRange e \<Longrightarrow> clockValid e \<Longrightarrow> datesOK e c n"
  by (simp add: datesOK_def taskDueDate_valid)

lemma defaultDatesOK_valid:
  assumes "clockValid e"
  shows "defaultDatesOK e c"
proof -
  have "defaultDueDate e c index \<noteq> Inl RangeError" if "index < 4" for index
  proof -
    have "dateNow e (nowCalls c + index) + 14 * msPerDay \<le> maxTime"
      using assms by (simp add: clockValid_def)
    moreover have "(index + 3) * msPerDay \<le> 14 * msPerDay" using that by simp
    ultimately have le: "dateNow e (nowCalls c + index) + (index + 3) * msPerDay \<le> maxTime"
      by linarith
    have eq: "dateNow e (nowCalls c + index) + (index + 3) * 24 * 60 * 60 * 1000 =
                dateNow e (nowCalls c + index) + (index + 3) * msPerDay"
      by (simp add: msPerDay_def)
    show ?thesis
      unfolding defaultDueDate_def eq isoDate_eq using le by simp
  qed
  then show ?thesis by (simp add: defaultDatesOK_def)
qed

lemma analyzeMeeting_total:
  assumes "randomInRange e" and "clockValid e"
  shows "\<exists>r. analyzeMeeting e transcript participants = Inr r"
proof -
  have "\<exists>c2 ts. extractTasks e (callsAfterActionItems transcript) transcript participants
                  = Inr (c2, ts)"
    by (simp add: extractTasks_eq Let_def datesOK_valid [OF assms] defaultDatesOK_valid [OF assms(2)])
  then show ?thesis using analyzeMeeting_succeeds by blast
qed

lemma summaryOfAllSentences_not_Nil: "summaryOfAllSentences transcript \<noteq> []"
  by (simp add: summaryOfAllSentences_def genericSummary_def Let_def)

subsection \<open>What the random source and the clock can change\<close>

lemma matchedActionItems_cong:
  assumes "uuidv4 e1 = uuidv4 e2"
  shows "matchedActionItems e1 k ss = matchedActionItems e2 k ss"
  by (simp add: matchedActionItems_def actionItemOf_def assms)

lemma defaultActionItems_cong:
  assumes "uuidv4 e1 = uuidv4 e2"
  shows "snd (defaultActionItems e1 c) = snd (defaultActionItems e2 c)"
  by (simp add: defaultActionItems_def callUuidv4_def assms)

lemma taskOf_blank:
  assumes "uuidv4 e1 = uuidv4 e2"
  shows "(taskOf e1 as c x)\<lparr>dueDate := []\<rparr> = (taskOf e2 as c x)\<lparr>dueDate := []\<rparr>"
  by (cases x) (simp add: taskOf_def assms)

lemma defaultTaskOf_blank:
  assumes "uuidv4 e1 = uuidv4 e2"
  shows "(defaultTaskOf e1 as c x)\<lparr>dueDate := []\<rparr> = (defaultTaskOf e2 as c x)\<lparr>dueDate := []\<rparr>"
  by (cases x) (simp add: defaultTaskOf_def assms)

lemma taskOf_blank_comp:
  assumes "uuidv4 e1 = uuidv4 e2"
  shows "(\<lambda>task. task\<lparr>dueDate := []\<rparr>) \<circ> taskOf e1 as c =
         (\<lambda>task. task\<lparr>dueDate := []\<rparr>) \<circ> taskOf e2 as c"
  by (rule ext) (simp add: taskOf_blank [OF assms])

lemma defaultTaskOf_blank_comp:
  assumes "uuidv4 e1 = uuidv4 e2"
  shows "(\<lambda>task. task\<lparr>dueDate := []\<rparr>) \<circ> defaultTaskOf e1 as c =
         (\<lambda>task. task\<lparr>dueDate := []\<rparr>) \<circ> defaultTaskOf e2 as c"
  by (rule ext) (simp add: defaultTaskOf_blank [OF assms])

lemma generateNextSteps_blank:
  "generateNextSteps items (map (\<lambda>task. task\<lparr>dueDate := []\<rparr>) ts) = generateNextSteps items ts"
  by (simp add: generateNextSteps_def list_ex_iff)

lemma withoutDueDates_eq:
  assumes "analyzeMeeting e transcript participants = Inr r"
  shows "withoutDueDates r =
           \<lparr>summary = generateSummary transcript (nonEmptySentences transcript),
            actionItems = actionItems r,
            tasks = map (\<lambda>task. task\<lparr>dueDate := []\<rparr>) (tasks r),
            keyTopics = topicsOf transcript,
            nextSteps = generateNextSteps (actionItems r)
                          (map (\<lambda>task. task\<lparr>dueDate := []\<rparr>) (tasks r))\<rparr>"
  using assms
  by (elim analyzeMeeting_Inr) (simp add: withoutDueDates_def generateNextSteps_blank)

lemma blank_tasks_cong:
  assumes "analyzeMeeting e1 transcript participants = Inr r1"
    and "analyzeMeeting e2 transcript participants = Inr r2"
    and "uuidv4 e1 = uuidv4 e2"
  shows "map (\<lambda>task. task\<lparr>dueDate := []\<rparr>) (tasks r1) =
         map (\<lambda>task. task\<lparr>dueDate := []\<rparr>) (tasks r2)"
  by (simp add: tasks_eq [OF assms(1)] tasks_eq [OF assms(2)] matchedTasks_def
                taskOf_blank_comp [OF assms(3)] defaultTaskOf_blank_comp [OF assms(3)]
           flip: take_map)

lemma actionItems_cong:
  assumes "analyzeMeeting e1 transcript participants = Inr r1"
    and "analyzeMeeting e2 transcript participants = Inr r2"
    and "uuidv4 e1 = uuidv4 e2"
  shows "actionItems r1 = actionItems r2"
  by (simp add: actionItems_eq [OF assms(1)] actionItems_eq [OF assms(2)]
                matchedActionItems_cong [OF assms(3)] defaultActionItems_cong [OF assms(3)])

lemma matchedActionItems_noIds:
  "map (\<lambda>item. item\<lparr>id_a := []\<rparr>) (matchedActionItems e1 k ss) =
   map (\<lambda>item. item\<lparr>id_a := []\<rparr>) (matchedActionItems e2 k ss)"
  by (simp add: matchedActionItems_def actionItemOf_def case_prod_unfold comp_def)

lemma defaultActionItems_noIds:
  "map (\<lambda>item. item\<lparr>id_a := []\<rparr>) (snd (defaultActionItems e1 c)) =
   map (\<lambda>item. item\<lparr>id_a := []\<rparr>) (snd (defaultActionItems e2 c))"
  by (simp add: defaultActionItems_def callUuidv4_def)

lemma taskOf_noIds_comp:
  "(\<lambda>task. task\<lparr>dueDate := [], id_t := []\<rparr>) \<circ> taskOf e1 as c =
   (\<lambda>task. task\<lparr>dueDate := [], id_t := []\<rparr>) \<circ> taskOf e2 as c"
  by (rule ext) (simp add: taskOf_def case_prod_unfold)

lemma defaultTaskOf_noIds_comp:
  "(\<lambda>task. task\<lparr>dueDate := [], id_t := []\<rparr>) \<circ> defaultTaskOf e1 as c =
   (\<lambda>task. task\<lparr>dueDate := [], id_t := []\<rparr>) \<circ> defaultTaskOf e2 as c"
  by (rule ext) (simp add: defaultTaskOf_def case_prod_unfold)

lemma generateNextSteps_noIds:
  "generateNextSteps (map (\<lambda>item. item\<lparr>id_a := []\<rparr>) items)
     (map (\<lambda>task. task\<lparr>dueDate := [], id_t := []\<rparr>) ts) = generateNextSteps items ts"
  by (simp add: generateNextSteps_def list_ex_iff)

lemma actionItems_noIds:
  assumes "analyzeMeeting e1 transcript participants = Inr r1"
    and "analyzeMeeting e2 transcript participants = Inr r2"
  shows "map (\<lambda>item. item\<lparr>id_a := []\<rparr>) (actionItems r1) =
         map (\<lambda>item. item\<lparr>id_a := []\<rparr>) (actionItems r2)"
  using matchedActionItems_noIds [of e1 0 "splitSentences transcript" e2]
    defaultActionItems_noIds [of e1 noCalls e2]
  by (simp add: actionItems_eq [OF assms(1)] actionItems_eq [OF assms(2)] flip: take_map)

lemma tasks_noIds:
  assumes "analyzeMeeting e1 transcript participants = Inr r1"
    and "analyzeMeeting e2 transcript participants = Inr r2"
  shows "map (\<lambda>task. task\<lparr>dueDate := [], id_t := []\<rparr>) (tasks r1) =
         map (\<lambda>task. task\<lparr>dueDate := [], id_t := []\<rparr>) (tasks r2)"
  using taskOf_noIds_comp [of e1 "roster participants" "callsAfterActionItems transcript" e2]
    defaultTaskOf_noIds_comp [of e1 "roster participants" "callsAfterActionItems transcript" e2]
  by (simp add: tasks_eq [OF assms(1)] tasks_eq [OF assms(2)] matchedTasks_def flip: take_map)

lemma withoutIds_eq:
  assumes "analyzeMeeting e transcript participants = Inr r"
  shows "withoutIds (withoutDueDates r) =
           \<lparr>summary = generateSummary transcript (nonEmptySentences transcript),
            actionItems = map (\<lambda>item. item\<lparr>id_a := []\<rparr>) (actionItems r),
            tasks = map (\<lambda>task. task\<lparr>dueDate := [], id_t := []\<rparr>) (tasks r),
            keyTopics = topicsOf transcript,
            nextSteps = generateNextSteps (map (\<lambda>item. item\<lparr>id_a := []\<rparr>) (actionItems r))
                          (map (\<lambda>task. task\<lparr>dueDate := [], id_t := []\<rparr>) (tasks r))\<rparr>"
  using assms
  by (elim analyzeMeeting_Inr)
     (simp add: withoutIds_def withoutDueDates_def generateNextSteps_noIds comp_def)

subsection \<open>Due dates of matched tasks\<close>

lemma clockFourDigitYear_valid: "clockFourDigitYear e \<Longrightarrow> clockValid e"
proof -
  assume a: "clockFourDigitYear e"
  have "dateNow e k + 14 * msPerDay \<le> maxTime" for k
  proof -
    have "dateNow e k + 14 * msPerDay < 253402300800000"
      using a by (simp add: clockFourDigitYear_def)
    then show ?thesis by (simp add: maxTime_def)
  qed
  then show ?thesis by (simp add: clockValid_def)
qed

lemma matchedTasks_nth:
  assumes "j < length (filter isTaskSentence ss)"
  shows "matchedTasks e as c index ss ! j = taskOf e as c (j, taskMatches index ss ! j)"
  using assms by (simp add: matchedTasks_def length_taskMatches nth_enumerate_eq)

lemma dueDate_taskOf:
  assumes "randomInRange e" and "clockValid e" and "nowCalls c = 0" and "randomCalls c = 0"
  shows "dueDate (taskOf e as c (j, x)) =
           calendarDate (dateNow e j + randomDays (mathRandom e j) * msPerDay)"
  using taskDueDate_valid [OF assms(1,2), of c j]
  by (cases x) (simp add: taskOf_def assms(3,4))

subsection \<open>Concrete runs\<close>

text \<open>Facts for evaluating the functions on literals.\<close>

lemmas string_defs =
  isWhiteSpace_def isUpper_def toLowerChar_def toLowerCase_def trim_def isSentenceEnd_def
  splitSentences_def splitWords_def someIncluded_def

lemmas date_simps =
  isoDate_eq maxTime_def calendarDate_2026 msPerDay_def monthLengths_def pad2_def digit_def

lemmas processor_defs =
  keyPhrases_def genericSummary_def generateSummary_def actionKeywords_def actionPriority_def
  actionCategory_def defaultActionItems_def extractActionItems_def taskKeywords_def
  defaultAssignees_def taskPriority_def randomDays_half randomDays_15_16 defaultTasks_def
  extractTasks_def
  baselineSteps_def generateNextSteps_def topicKeywords_def analyzeMeeting_def
  noCalls_def callUuidv4_def callRandom_def callNow_def

lemma budget_run: "analyzeMeeting env0 budgetTranscript [] = Inr budgetAnalysis"
  by (simp add: budgetTranscript_def budgetAnalysis_def env0_def string_defs date_simps processor_defs)

lemma roundRobin_run: "analyzeMeeting env0 roundRobinTranscript team = Inr roundRobinAnalysis"
  by (simp add: roundRobinTranscript_def roundRobinAnalysis_def env0_def team_def string_defs date_simps processor_defs)

lemma roundRobinLater_run: "analyzeMeeting env1 roundRobinTranscript team = Inr roundRobinLaterAnalysis"
  by (simp add: roundRobinTranscript_def roundRobinLaterAnalysis_def env1_def team_def string_defs date_simps processor_defs)

lemma empty_run: "analyzeMeeting env0 emptyTranscript [] = Inr emptyAnalysis"
  by (simp add: emptyTranscript_def emptyAnalysis_def env0_def string_defs date_simps processor_defs)

lemma shifted_run: "analyzeMeeting env0 shiftedTranscript [] = Inr shiftedAnalysis"
  by (simp add: shiftedTranscript_def shiftedAnalysis_def env0_def string_defs date_simps processor_defs)

lemma crowded_run: "analyzeMeeting env0 crowdedTranscript [] = Inr crowdedAnalysis"
  by (simp add: crowdedTranscript_def crowdedAnalysis_def env0_def string_defs date_simps processor_defs)

lemma client_run: "analyzeMeeting env0 clientTranscript [] = Inr clientAnalysis"
  by (simp add: clientTranscript_def clientAnalysis_def env0_def string_defs date_simps processor_defs)

lemma agreed_run: "analyzeMeeting env0 agreedTranscript [] = Inr agreedAnalysis"
  by (simp add: agreedTranscript_def agreedAnalysis_def env0_def string_defs date_simps processor_defs)

lemma roundRobin_positions:
  "map fst (taskMatches 0 (splitSentences roundRobinTranscript)) = [0, 2, 5]"
  by (simp add: roundRobinTranscript_def taskMatches_def isTaskSentence_def taskKeywords_def
                string_defs enumerate_eq_zip upt_rec)

lemma shifted_split: "splitSentences shiftedTranscript = ['''', '' Assign it'', '''']"
  by (simp add: shiftedTranscript_def string_defs)

lemma shifted_matches: "taskMatches 0 (splitSentences shiftedTranscript) = [(1, '' Assign it'')]"
  unfolding shifted_split
  by (simp add: taskMatches_def isTaskSentence_def taskKeywords_def string_defs)

lemma hello_run: "analyzeMeeting env0 helloTranscript team = Inr helloAnalysis"
  by (simp add: helloTranscript_def helloAnalysis_def env0_def team_def string_defs date_simps processor_defs)

lemma hello_noTriggers: "noTriggers helloTranscript"
  by (simp add: helloTranscript_def noTriggers_def hasKeyPhrase_def isActionSentence_def
                isTaskSentence_def keyPhrases_def actionKeywords_def taskKeywords_def
                topicKeywords_def string_defs)

lemma empty_noTriggers: "noTriggers emptyTranscript"
  by (simp add: emptyTranscript_def noTriggers_def hasKeyPhrase_def isActionSentence_def
                isTaskSentence_def keyPhrases_def actionKeywords_def taskKeywords_def
                topicKeywords_def string_defs)

lemma env0_clockValid: "clockValid env0"
  by (simp add: clockValid_def env0_def msPerDay_def maxTime_def)

lemma env0_randomInRange: "randomInRange env0"
  by (simp add: randomInRange_def env0_def)

lemma roundRobinOtherIds_run: "analyzeMeeting env2 roundRobinTranscript team = Inr roundRobinOtherIdsAnalysis"
  by (simp add: roundRobinTranscript_def roundRobinOtherIdsAnalysis_def env2_def team_def string_defs date_simps processor_defs)

section \<open>The claims of the specification\<close>

text \<open>
  \<^bold>\<open>C1.\<close> For a transcript in which no sentence contains a key phrase, an action keyword
  or a task keyword and no word is a topic keyword, \<open>analyzeMeeting\<close> returns the
  fallback analysis: the two default action items, the four default tasks, the generic
  summary, an empty topic list, and the three baseline next steps followed by the
  high-priority-task step. The first default task has priority High, so the next steps are
  four, not the baseline three that the specification names: the empty transcript shows
  it.
\<close>

theorem C1_fallback:
  assumes "noTriggers transcript" and "clockValid e"
  shows "analyzeMeeting e transcript participants = Inr (fallbackAnalysis e participants) \<and>
         nextSteps (fallbackAnalysis e participants) =
           baselineSteps @ [''Ensure high-priority tasks have adequate resources''] \<and>
         length (actionItems (fallbackAnalysis e participants)) = 2 \<and>
         length (tasks (fallbackAnalysis e participants)) = 4 \<and>
         summary (fallbackAnalysis e participants) = genericSummary \<and>
         keyTopics (fallbackAnalysis e participants) = []"
  using analyzeMeeting_fallback [OF assms, of participants]
  by (simp add: fallbackAnalysis_def baselineSteps_def)

theorem C1_fallback_witness:
  "noTriggers helloTranscript \<and> clockValid env0 \<and>
   analyzeMeeting env0 helloTranscript team = Inr helloAnalysis \<and>
   fallbackAnalysis env0 team = helloAnalysis"
  using C1_fallback [OF hello_noTriggers env0_clockValid, of team] hello_run
    hello_noTriggers env0_clockValid
  by simp

theorem C1_counterexample:
  "noTriggers emptyTranscript \<and>
   analyzeMeeting env0 emptyTranscript [] = Inr emptyAnalysis \<and>
   length (nextSteps emptyAnalysis) = 4 \<and>
   nextSteps emptyAnalysis \<noteq> baselineSteps"
  using empty_noTriggers empty_run
  by (simp add: emptyAnalysis_def baselineSteps_def)

text \<open>
  \<^bold>\<open>C2.\<close> Every analysis result has at most 6 action items and at most 5 tasks. When
  sentences match, the items kept are those of the first 6 (respectively 5) matching
  sentences, in sentence order: their descriptions are the trimmed sentences.
\<close>

theorem C2_bounds:
  assumes "analyzeMeeting e transcript participants = Inr r"
  shows "length (actionItems r) \<le> 6 \<and> length (tasks r) \<le> 5 \<and>
         (filter isActionSentence (splitSentences transcript) \<noteq> [] \<longrightarrow>
            map description_a (actionItems r) =
              take 6 (map trim (filter isActionSentence (splitSentences transcript)))) \<and>
         (filter isTaskSentence (splitSentences transcript) \<noteq> [] \<longrightarrow>
            map description_t (tasks r) =
              take 5 (map trim (filter isTaskSentence (splitSentences transcript))))"
proof -
  have "length (snd (defaultActionItems e noCalls)) = 2"
    by (simp add: defaultActionItems_def callUuidv4_def)
  then have a: "length (actionItems r) \<le> 6"
    by (simp add: actionItems_eq [OF assms])
  have t: "length (tasks r) \<le> 5"
    by (simp add: tasks_eq [OF assms])
  show ?thesis
    using a t
    by (simp add: actionItems_eq [OF assms] tasks_eq [OF assms] descriptions_matchedActionItems
                  descriptions_matchedTasks flip: take_map)
qed

theorem C2_bounds_witness:
  "analyzeMeeting env0 crowdedTranscript [] = Inr crowdedAnalysis \<and>
   length (filter isActionSentence (splitSentences crowdedTranscript)) = 7 \<and>
   length (filter isTaskSentence (splitSentences crowdedTranscript)) = 6 \<and>
   map description_a (actionItems crowdedAnalysis) =
     [''Must a'', ''Must b'', ''Must c'', ''Must d'', ''Must e'', ''Must f''] \<and>
   map description_t (tasks crowdedAnalysis) =
     [''Due a'', ''Due b'', ''Due c'', ''Due d'', ''Due e'']"
proof -
  have a: "map trim (filter isActionSentence (splitSentences crowdedTranscript)) =
             [''Must a'', ''Must b'', ''Must c'', ''Must d'', ''Must e'', ''Must f'', ''Must g'']"
    by (simp add: crowdedTranscript_def isActionSentence_def actionKeywords_def string_defs)
  have t: "map trim (filter isTaskSentence (splitSentences crowdedTranscript)) =
             [''Due a'', ''Due b'', ''Due c'', ''Due d'', ''Due e'', ''Due f'']"
    by (simp add: crowdedTranscript_def isTaskSentence_def taskKeywords_def string_defs)
  have la: "length (filter isActionSentence (splitSentences crowdedTranscript)) = 7"
    using arg_cong [OF a, of length] by simp
  have lt: "length (filter isTaskSentence (splitSentences crowdedTranscript)) = 6"
    using arg_cong [OF t, of length] by simp
  have na: "filter isActionSentence (splitSentences crowdedTranscript) \<noteq> []"
    and nt: "filter isTaskSentence (splitSentences crowdedTranscript) \<noteq> []"
    using la lt by auto
  show ?thesis
    using C2_bounds [OF crowded_run] crowded_run la lt na nt
    by (simp add: a t)
qed

text \<open>
  \<^bold>\<open>C3.\<close> \<open>analyzeMeeting\<close> returns for every transcript and every participant list,
  the empty ones included: no exception is raised, given that \<open>Math.random()\<close> keeps its
  contract and that the clock reads at least 14 days before the end of the \<open>Date\<close>
  range. The summary, the action items, the tasks and the next steps of the result are
  never empty; the topic list is the list of topics found, which is empty when no topic
  keyword occurs. For the empty transcript the result is the fallback analysis.
\<close>

theorem C3_total:
  assumes "randomInRange e" and "clockValid e"
  shows "\<exists>r. analyzeMeeting e transcript participants = Inr r \<and>
             summary r \<noteq> [] \<and> actionItems r \<noteq> [] \<and> tasks r \<noteq> [] \<and> nextSteps r \<noteq> [] \<and>
             keyTopics r = topicsOf transcript \<and>
             (transcript = [] \<longrightarrow> r = fallbackAnalysis e participants)"
proof -
  obtain r where r: "analyzeMeeting e transcript participants = Inr r"
    using analyzeMeeting_total [OF assms] by blast
  have "summary r \<noteq> []"
    using r by (elim analyzeMeeting_Inr) (simp add: generateSummary_eq summaryOfAllSentences_not_Nil)
  moreover have "actionItems r \<noteq> []"
    by (simp add: actionItems_eq [OF r] defaultActionItems_def callUuidv4_def)
  moreover have "tasks r \<noteq> []"
    by (simp add: tasks_eq [OF r] defaultTasks_def)
  moreover have "nextSteps r \<noteq> []"
    using r by (elim analyzeMeeting_Inr) (simp add: generateNextSteps_def baselineSteps_def Let_def)
  moreover have "keyTopics r = topicsOf transcript"
    using r by (elim analyzeMeeting_Inr)
  moreover have "r = fallbackAnalysis e participants" if "transcript = []"
    using r analyzeMeeting_fallback [OF empty_noTriggers assms(2), of participants] that
    by (simp add: emptyTranscript_def)
  ultimately show ?thesis using r by blast
qed

theorem C3_total_witness:
  "randomInRange env0 \<and> clockValid env0 \<and>
   analyzeMeeting env0 [] [] = Inr emptyAnalysis \<and>
   fallbackAnalysis env0 [] = emptyAnalysis \<and>
   summary emptyAnalysis \<noteq> [] \<and> actionItems emptyAnalysis \<noteq> [] \<and>
   tasks emptyAnalysis \<noteq> [] \<and> nextSteps emptyAnalysis \<noteq> [] \<and> keyTopics emptyAnalysis = []"
  using C3_total [OF env0_randomInRange env0_clockValid, of "[]" "[]"]
    empty_run env0_randomInRange env0_clockValid
  by (simp add: emptyTranscript_def, simp add: emptyAnalysis_def)

text \<open>
  \<^bold>\<open>C4.\<close> For every analysis result, \<open>nextSteps\<close> is the three baseline steps in their
  fixed order, with the urgent-action step in front exactly when some action item of the
  result has priority High, and the urgent-task step at the end exactly when some task of
  the result has priority High.
\<close>

theorem C4_nextSteps:
  assumes "analyzeMeeting e transcript participants = Inr r"
  shows "nextSteps r =
           (if \<exists>item\<in>set (actionItems r). priority_a item = High
            then [''Address high-priority action items immediately''] else [])
           @ [''Distribute meeting summary to all participants'',
              ''Set up follow-up meetings for high-priority items'',
              ''Monitor task completion and provide updates'']
           @ (if \<exists>task\<in>set (tasks r). priority_t task = High
              then [''Ensure high-priority tasks have adequate resources''] else [])"
  using assms
  by (elim analyzeMeeting_Inr)
     (simp add: generateNextSteps_def baselineSteps_def list_ex_iff del: One_nat_def)

theorem C4_nextSteps_witness:
  "analyzeMeeting env0 budgetTranscript [] = Inr budgetAnalysis \<and>
   nextSteps budgetAnalysis =
     [''Address high-priority action items immediately'',
      ''Distribute meeting summary to all participants'',
      ''Set up follow-up meetings for high-priority items'',
      ''Monitor task completion and provide updates'',
      ''Ensure high-priority tasks have adequate resources'']"
  using C4_nextSteps [OF budget_run] budget_run
  by (simp add: budgetAnalysis_def)

text \<open>
  \<^bold>\<open>C5.\<close> With participants Sarah, Mike and Lisa, and a transcript whose sentences with
  a task keyword are the sentences at positions 0, 2 and 5 of the split, the three tasks
  are assigned to \<open>roster[0 % 3]\<close>, \<open>roster[2 % 3]\<close> and \<open>roster[5 % 3]\<close>, which
  are Sarah, Lisa and Lisa: 5 modulo 3 is 2. The specification names Sarah as the third
  assignee; the run below has Lisa there.
\<close>

theorem C5_assignees:
  assumes "analyzeMeeting e transcript [''Sarah'', ''Mike'', ''Lisa''] = Inr r"
    and "map fst (taskMatches 0 (splitSentences transcript)) = [0, 2, 5]"
  shows "map assignee (tasks r) = [''Sarah'', ''Lisa'', ''Lisa'']"
proof -
  let ?ss = "splitSentences transcript"
  let ?as = "[''Sarah'', ''Mike'', ''Lisa'']"
  have len: "length (filter isTaskSentence ?ss) = 3"
    using arg_cong [OF assms(2), of length] by (simp add: length_taskMatches)
  then have ne: "filter isTaskSentence ?ss \<noteq> []" by auto
  have "map assignee (tasks r) =
          take 5 (map (\<lambda>i. ?as ! (i mod length ?as)) (map fst (taskMatches 0 ?ss)))"
    using ne
    by (simp add: tasks_eq [OF assms(1)] roster_def assignees_matchedTasks case_prod_unfold comp_def
             flip: take_map)
  then show ?thesis by (simp add: assms(2))
qed

theorem C5_assignees_witness:
  "analyzeMeeting env0 roundRobinTranscript [''Sarah'', ''Mike'', ''Lisa''] = Inr roundRobinAnalysis \<and>
   map fst (taskMatches 0 (splitSentences roundRobinTranscript)) = [0, 2, 5] \<and>
   map assignee (tasks roundRobinAnalysis) = [''Sarah'', ''Lisa'', ''Lisa'']"
  using C5_assignees [OF roundRobin_run [unfolded team_def] roundRobin_positions]
    roundRobin_run roundRobin_positions
  by (simp add: team_def)

theorem C5_counterexample:
  "analyzeMeeting env0 roundRobinTranscript [''Sarah'', ''Mike'', ''Lisa''] = Inr roundRobinAnalysis \<and>
   map fst (taskMatches 0 (splitSentences roundRobinTranscript)) = [0, 2, 5] \<and>
   map assignee (tasks roundRobinAnalysis) \<noteq> [''Sarah'', ''Lisa'', ''Sarah'']"
  using roundRobin_run roundRobin_positions
  by (simp add: team_def roundRobinAnalysis_def)

text \<open>
  \<^bold>\<open>C6.\<close> An action item made from a sentence that contains both \<open>client\<close> and
  \<open>budget\<close>, case-insensitively, has category \<open>Client Relations\<close>. The sentence is the
  \<open>k\<close>-th sentence with an action keyword, among the first six; its item is the \<open>k\<close>-th
  action item.
\<close>

theorem C6_client_before_budget:
  assumes "analyzeMeeting e transcript participants = Inr r"
    and "ms = filter isActionSentence (splitSentences transcript)"
    and "k < length ms" and "k < 6"
    and "includes_str (toLowerCase (ms ! k)) ''client''"
    and "includes_str (toLowerCase (ms ! k)) ''budget''"
  shows "description_a (actionItems r ! k) = trim (ms ! k) \<and>
         category (actionItems r ! k) = ''Client Relations''"
proof -
  have ne: "filter isActionSentence (splitSentences transcript) \<noteq> []"
    using assms(2,3) by auto
  have "actionItems r ! k = actionItemOf e (enumerate 0 ms ! k)"
    using assms(2,3,4) ne by (simp add: actionItems_eq [OF assms(1)] matchedActionItems_def)
  also have "\<dots> = actionItemOf e (k, ms ! k)"
    using assms(3) by (simp add: nth_enumerate_eq)
  finally show ?thesis
    using assms(5) by (simp add: actionItemOf_def actionCategory_def)
qed

theorem C6_client_before_budget_witness:
  "analyzeMeeting env0 clientTranscript [] = Inr clientAnalysis \<and>
   filter isActionSentence (splitSentences clientTranscript) = [''Review the client budget''] \<and>
   includes_str (toLowerCase ''Review the client budget'') ''client'' \<and>
   includes_str (toLowerCase ''Review the client budget'') ''budget'' \<and>
   category (actionItems clientAnalysis ! 0) = ''Client Relations''"
proof -
  have ms: "filter isActionSentence (splitSentences clientTranscript) = [''Review the client budget'']"
    by (simp add: clientTranscript_def isActionSentence_def actionKeywords_def string_defs)
  have c: "includes_str (toLowerCase ''Review the client budget'') ''client''"
    and b: "includes_str (toLowerCase ''Review the client budget'') ''budget''"
    by (simp_all add: string_defs)
  show ?thesis
    using C6_client_before_budget [OF client_run ms [symmetric], of 0] client_run ms c b
    by simp
qed

text \<open>
  \<^bold>\<open>C7.\<close> The summary of every analysis result is the summary as the specification words
  it: the first four sentences with a key phrase, trimmed, joined with \<open>. \<close> and closed
  with a full stop, or the generic text when no sentence has a key phrase.
\<close>

theorem C7_summary:
  assumes "analyzeMeeting e transcript participants = Inr r"
  shows "summary r = specSummary transcript"
  using assms by (elim analyzeMeeting_Inr) (simp add: generateSummary_eq specSummary_eq)

theorem C7_summary_witness:
  "analyzeMeeting env0 agreedTranscript [] = Inr agreedAnalysis \<and>
   specSummary agreedTranscript = ''We agreed. He agreed. She agreed. I agreed.''"
  using C7_summary [OF agreed_run] agreed_run
  by (simp add: agreedAnalysis_def)

text \<open>
  \<^bold>\<open>C8.\<close> Two runs of \<open>analyzeMeeting\<close> on the same transcript and the same
  participants return analyses that are equal except for the ids of the action items and
  tasks and the due dates of the tasks, whatever \<open>uuidv4()\<close>, \<open>Math.random()\<close> and the
  clock return in either run. With the same source of ids they are equal except for the
  due dates, and with the same random source and clock too they are equal. The ids are
  drawn from \<open>uuidv4()\<close>, which a fixed \<open>Math.random()\<close> and a fixed clock leave free:
  the runs under \<open>env0\<close> and \<open>env2\<close> have the same random values and clock readings
  and differ in their ids.
\<close>

theorem C8_same_up_to_ids_and_due_dates:
  assumes "analyzeMeeting e1 transcript participants = Inr r1"
    and "analyzeMeeting e2 transcript participants = Inr r2"
  shows "withoutIds (withoutDueDates r1) = withoutIds (withoutDueDates r2) \<and>
         (uuidv4 e1 = uuidv4 e2 \<longrightarrow> withoutDueDates r1 = withoutDueDates r2) \<and>
         (uuidv4 e1 = uuidv4 e2 \<and> mathRandom e1 = mathRandom e2 \<and> dateNow e1 = dateNow e2
            \<longrightarrow> r1 = r2)"
proof -
  have "withoutIds (withoutDueDates r1) = withoutIds (withoutDueDates r2)"
    unfolding withoutIds_eq [OF assms(1)] withoutIds_eq [OF assms(2)]
    by (simp add: actionItems_noIds [OF assms] tasks_noIds [OF assms])
  moreover have "withoutDueDates r1 = withoutDueDates r2" if u: "uuidv4 e1 = uuidv4 e2"
    unfolding withoutDueDates_eq [OF assms(1)] withoutDueDates_eq [OF assms(2)]
    by (simp add: blank_tasks_cong [OF assms u] actionItems_cong [OF assms u])
  moreover have "r1 = r2"
    if "uuidv4 e1 = uuidv4 e2" and "mathRandom e1 = mathRandom e2" and "dateNow e1 = dateNow e2"
  proof -
    have "e1 = e2" using that by simp
    then show ?thesis using assms by simp
  qed
  ultimately show ?thesis by blast
qed

theorem C8_same_up_to_ids_and_due_dates_witness:
  "analyzeMeeting env0 roundRobinTranscript team = Inr roundRobinAnalysis \<and>
   analyzeMeeting env1 roundRobinTranscript team = Inr roundRobinLaterAnalysis \<and>
   uuidv4 env0 = uuidv4 env1 \<and>
   withoutDueDates roundRobinAnalysis = withoutDueDates roundRobinLaterAnalysis \<and>
   map dueDate (tasks roundRobinAnalysis) = [''2026-11-11'', ''2026-11-11'', ''2026-11-11''] \<and>
   map dueDate (tasks roundRobinLaterAnalysis) = [''2026-11-20'', ''2026-11-20'', ''2026-11-20'']"
proof -
  have u: "uuidv4 env0 = uuidv4 env1" by (simp add: env0_def env1_def)
  show ?thesis
    using C8_same_up_to_ids_and_due_dates [OF roundRobin_run roundRobinLater_run]
      roundRobin_run roundRobinLater_run u
    by (simp add: roundRobinAnalysis_def roundRobinLaterAnalysis_def)
qed

theorem C8_counterexample:
  "mathRandom env0 = mathRandom env2 \<and> dateNow env0 = dateNow env2 \<and>
   analyzeMeeting env0 roundRobinTranscript team = Inr roundRobinAnalysis \<and>
   analyzeMeeting env2 roundRobinTranscript team = Inr roundRobinOtherIdsAnalysis \<and>
   withoutDueDates roundRobinAnalysis \<noteq> withoutDueDates roundRobinOtherIdsAnalysis"
  using roundRobin_run roundRobinOtherIds_run
  by (simp add: env0_def env2_def withoutDueDates_def roundRobinAnalysis_def
                roundRobinOtherIdsAnalysis_def)

text \<open>
  \<^bold>\<open>C9.\<close> When some sentence has a task keyword, \<open>analyzeMeeting\<close> returns, and the due
  date of the \<open>j\<close>-th task is the date, in the form \<open>YYYY-MM-DD\<close>, of the \<open>j\<close>-th clock
  reading plus \<open>d\<close> whole days, where \<open>d = Math.floor(r * 14) + 1\<close> lies between 1 and 14
  for every value \<open>r\<close> of \<open>Math.random()\<close>. The clock reads at least 14 days before the
  year 10000, from which on \<open>toISOString\<close> writes years with a sign and six digits.
\<close>

theorem C9_due_dates:
  assumes "randomInRange e" and "clockFourDigitYear e"
    and "filter isTaskSentence (splitSentences transcript) \<noteq> []"
  shows "\<exists>r. analyzeMeeting e transcript participants = Inr r \<and>
             (\<forall>j<length (tasks r).
                1 \<le> randomDays (mathRandom e j) \<and> randomDays (mathRandom e j) \<le> 14 \<and>
                isoDate (dateNow e j + randomDays (mathRandom e j) * msPerDay)
                  = Inr (dueDate (tasks r ! j)) \<and>
                isCalendarDate (dueDate (tasks r ! j)))"
proof -
  note valid = clockFourDigitYear_valid [OF assms(2)]
  obtain r where r: "analyzeMeeting e transcript participants = Inr r"
    using analyzeMeeting_total [OF assms(1) valid] by blast
  let ?c = "callsAfterActionItems transcript"
  let ?ss = "splitSentences transcript"
  have c: "nowCalls ?c = 0" "randomCalls ?c = 0"
    by (simp_all add: callsAfterActionItems_def Let_def)
  have ts: "tasks r = take 5 (matchedTasks e (roster participants) ?c 0 ?ss)"
    using assms(3) by (simp add: tasks_eq [OF r])
  have "1 \<le> randomDays (mathRandom e j) \<and> randomDays (mathRandom e j) \<le> 14 \<and>
        isoDate (dateNow e j + randomDays (mathRandom e j) * msPerDay)
          = Inr (dueDate (tasks r ! j)) \<and>
        isCalendarDate (dueDate (tasks r ! j))"
    if j: "j < length (tasks r)" for j
  proof -
    let ?d = "randomDays (mathRandom e j)"
    have d: "1 \<le> ?d \<and> ?d \<le> 14"
      using assms(1) randomDays_range [of "mathRandom e j"] by (simp add: randomInRange_def)
    then have "?d * msPerDay \<le> 14 * msPerDay" by simp
    moreover have "dateNow e j + 14 * msPerDay < 253402300800000"
      using assms(2) by (simp add: clockFourDigitYear_def)
    ultimately have lt: "dateNow e j + ?d * msPerDay < 253402300800000" by linarith
    then have le: "dateNow e j + ?d * msPerDay \<le> maxTime" by (simp add: maxTime_def)
    have jm: "j < length (filter isTaskSentence ?ss)" using j by (simp add: ts)
    have "tasks r ! j = taskOf e (roster participants) ?c (j, taskMatches 0 ?ss ! j)"
      using j by (simp add: ts matchedTasks_nth [OF jm])
    then have due: "dueDate (tasks r ! j) = calendarDate (dateNow e j + ?d * msPerDay)"
      by (simp add: dueDate_taskOf [OF assms(1) valid c])
    show ?thesis
      using d le calendarDate_shape [OF lt] by (simp add: due isoDate_eq)
  qed
  then show ?thesis using r by blast
qed

theorem C9_due_dates_witness:
  "randomInRange env1 \<and> clockFourDigitYear env1 \<and>
   filter isTaskSentence (splitSentences roundRobinTranscript) \<noteq> [] \<and>
   analyzeMeeting env1 roundRobinTranscript team = Inr roundRobinLaterAnalysis \<and>
   randomDays (mathRandom env1 0) = 14 \<and>
   dueDate (tasks roundRobinLaterAnalysis ! 0) = ''2026-11-20'' \<and>
   isCalendarDate ''2026-11-20''"
proof -
  have rnd: "randomInRange env1" by (simp add: randomInRange_def env1_def)
  have clk: "clockFourDigitYear env1"
    by (simp add: clockFourDigitYear_def env1_def msPerDay_def)
  have ne: "filter isTaskSentence (splitSentences roundRobinTranscript) \<noteq> []"
    using arg_cong [OF roundRobin_positions, of length]
    by (simp add: length_taskMatches) auto
  have cal: "isCalendarDate ''2026-11-20''"
    by (simp add: isCalendarDate_def isDigit_def)
  show ?thesis
    using C9_due_dates [OF rnd clk ne, of team] roundRobinLater_run rnd clk ne cal
    by (simp add: roundRobinLaterAnalysis_def env1_def randomDays_15_16)
qed

text \<open>
  \<^bold>\<open>C10.\<close> In task extraction the round-robin index of a sentence is its position in the
  raw split of the transcript, blank segments included, while the sentence list of
  \<open>analyzeMeeting\<close> leaves the blank segments out. A blank segment never yields a task,
  and the index of a matching sentence is its position among the non-blank sentences plus
  the number of blank segments before it.
\<close>

theorem C10_raw_index:
  assumes "analyzeMeeting e transcript participants = Inr r"
    and "taskMatches 0 (splitSentences transcript) \<noteq> []"
  shows "map assignee (tasks r) =
           map (\<lambda>(i, s). roster participants ! (i mod length (roster participants)))
             (take 5 (taskMatches 0 (splitSentences transcript))) \<and>
         nonEmptySentences transcript = filter (\<lambda>s. \<not> isBlank s) (splitSentences transcript) \<and>
         (\<forall>s\<in>set (splitSentences transcript). isBlank s \<longrightarrow> \<not> isTaskSentence s) \<and>
         (\<forall>(i, s)\<in>set (taskMatches 0 (splitSentences transcript)).
            i < length (splitSentences transcript) \<and> splitSentences transcript ! i = s \<and>
            i = length (filter (\<lambda>s. \<not> isBlank s) (take i (splitSentences transcript)))
                + length (filter isBlank (take i (splitSentences transcript))))"
proof -
  let ?ss = "splitSentences transcript"
  have ne: "filter isTaskSentence ?ss \<noteq> []"
    using assms(2) length_taskMatches [of 0 ?ss] by (simp only: flip: length_0_conv) simp
  have 1: "map assignee (tasks r) =
             map (\<lambda>(i, s). roster participants ! (i mod length (roster participants)))
               (take 5 (taskMatches 0 ?ss))"
    using ne by (simp add: tasks_eq [OF assms(1)] assignees_matchedTasks flip: take_map)
  have 2: "nonEmptySentences transcript = filter (\<lambda>s. \<not> isBlank s) ?ss"
    by (simp add: nonEmptySentences_def isBlank_def)
  have 3: "\<forall>s\<in>set ?ss. isBlank s \<longrightarrow> \<not> isTaskSentence s"
    using blank_not_isTaskSentence by blast
  have 4: "i < length ?ss \<and> ?ss ! i = s \<and>
           i = length (filter (\<lambda>s. \<not> isBlank s) (take i ?ss)) + length (filter isBlank (take i ?ss))"
    if "(i, s) \<in> set (taskMatches 0 ?ss)" for i s
  proof -
    from that have i: "i < length ?ss" and s: "?ss ! i = s"
      by (simp_all add: taskMatches_def in_set_enumerate_eq)
    have "length (filter isBlank (take i ?ss)) + length (filter (\<lambda>s. \<not> isBlank s) (take i ?ss))
            = length (take i ?ss)"
      by (rule sum_length_filter_compl)
    then show ?thesis using i s by simp
  qed
  show ?thesis using 1 2 3 4 by blast
qed

theorem C10_raw_index_witness:
  "analyzeMeeting env0 shiftedTranscript [] = Inr shiftedAnalysis \<and>
   splitSentences shiftedTranscript = ['''', '' Assign it'', ''''] \<and>
   nonEmptySentences shiftedTranscript = ['' Assign it''] \<and>
   taskMatches 0 (splitSentences shiftedTranscript) = [(1, '' Assign it'')] \<and>
   map assignee (tasks shiftedAnalysis) = [roster [] ! 1] \<and>
   roster [] ! 1 = ''Project Manager'' \<and> roster [] ! 0 = ''Team Lead''"
proof -
  have ne: "taskMatches 0 (splitSentences shiftedTranscript) \<noteq> []"
    by (simp add: shifted_matches)
  show ?thesis
    using C10_raw_index [OF shifted_run ne] shifted_run shifted_split shifted_matches
    by (simp add: roster_def defaultAssignees_def isBlank_def string_defs)
qed

end
